theory Spec2Isabelle
  imports Main "HOL-Library.Word"
begin

section \<open>Data model of command/agent/alloc\_endpoint.go\<close>

text \<open>
  The handlers of \<^verbatim>\<open>alloc_endpoint.go\<close> are methods of \<^verbatim>\<open>HTTPServer\<close>. Each returns a
  pair \<^verbatim>\<open>(interface{}, error)\<close> and talks to collaborators that live in other packages
  (the RPC transports, the request parsers, the \<^verbatim>\<open>structs\<close> package, snappy, the
  allocation directory). The embedding returns, next to the pair, the list of collaborator
  calls the handler made, in order, so that "no RPC is issued" is a statement about a value.
\<close>

type_synonym bytes = "8 word list"

text \<open>
  Go errors. \<^verbatim>\<open>CodedError(code, msg)\<close> is the only error of this file that carries an HTTP
  status; \<^verbatim>\<open>fmt.Errorf\<close> builds a plain error that carries only its text; every other
  error value (an RPC failure, a decoder failure, a sentinel of package \<^verbatim>\<open>structs\<close>) comes
  from outside and is kept opaque in \<open>'e\<close>.
\<close>

datatype 'e error =
    CodedError int string
  | Errorf string
  | Foreign 'e

record request =
  Method :: string
  Query :: "(string \<times> string) list"
  Body :: string

text \<open>\<^verbatim>\<open>req.URL.Query().Get(key)\<close>: the first value of the key, the empty string when absent.\<close>

definition QueryGet :: "(string \<times> string) list \<Rightarrow> string \<Rightarrow> string" where
  "QueryGet q k = (case map_of q k of None \<Rightarrow> [] | Some v \<Rightarrow> v)"

text \<open>
  The request structs handed to the RPC layer, fields in the order given:
  \<^item> \<open>AllocListRequest QueryOptions\<close>
  \<^item> \<open>AllocSpecificRequest AllocID QueryOptions\<close>
  \<^item> \<open>NodeSpecificRequest NodeID QueryOptions\<close>
  \<^item> \<open>AllocRestartRequest AllocID TaskName QueryOptions\<close>
  \<^item> \<open>AllocSignalRequest AllocID Task Signal QueryOptions\<close>
  \<^item> \<open>AllocStatsRequest AllocID Task QueryOptions\<close>
  \<open>QueryOptions\<close> (region, token, consistency) is declared in package \<^verbatim>\<open>structs\<close> and only
  ever filled by \<^verbatim>\<open>s.parse\<close>; it is the opaque type \<open>'q\<close>.
\<close>

datatype 'q args =
    AllocListRequest 'q
  | AllocSpecificRequest string 'q
  | NodeSpecificRequest string 'q
  | AllocRestartRequest string string 'q
  | AllocSignalRequest string string string 'q
  | AllocStatsRequest string string 'q

text \<open>
  The four call paths of the file: \<^verbatim>\<open>s.agent.RPC\<close>, \<^verbatim>\<open>s.agent.Client().ClientRPC\<close>,
  \<^verbatim>\<open>s.agent.Client().RPC\<close> and \<^verbatim>\<open>s.agent.Server().RPC\<close>.
\<close>

datatype transport = AgentRPC | LocalClientRPC | ClientRPC | ServerRPC

datatype 'q event =
    EvRpcHandlerForAlloc string
  | EvRpcHandlerForNode string
  | EvRPC transport string "'q args"
  | EvSetMeta
  | EvValidateMigrateToken string string
  | EvGetAllocFS string
  | EvSnapshot
  | EvSnappyDecode bytes
  | EvCopy nat

text \<open>
  Allocations are handled through pointers (\<^verbatim>\<open>*structs.Allocation\<close>, with a pointer
  \<^verbatim>\<open>Job\<close> inside), and \<^verbatim>\<open>allocGet\<close> writes through them, so they live in a store: a pointer
  is an index into the list of objects of its kind, \<open>None\<close> is \<^verbatim>\<open>nil\<close>. Of a job only the
  payload is read or written here. \<open>'ts\<close> is the \<^verbatim>\<open>TaskStates\<close> component, which holds the
  task events and their display messages.
\<close>

record Job =
  Payload :: bytes

record 'ts Allocation =
  ID :: string
  Job :: "nat option"
  TaskStates :: 'ts

record 'ts heap =
  allocs :: "'ts Allocation list"
  jobs :: "Job list"

datatype 'ts AllocListStub = AllocListStub string 'ts

text \<open>
  The first component of a handler's return value (\<^verbatim>\<open>interface{}\<close>): \<^verbatim>\<open>nil\<close>, the slice of
  stubs of the list reply (\<open>None\<close> is the \<^verbatim>\<open>nil\<close> slice), a pointer to an allocation, a
  \<^verbatim>\<open>GenericResponse\<close> (opaque, \<open>'g\<close>), or the \<^verbatim>\<open>Stats\<close> pointer of the stats reply.
\<close>

datatype ('g, 'st, 'ts) result =
    Nil
  | Stubs "'ts AllocListStub list option"
  | AllocPtr nat
  | Generic 'g
  | Stats "'st option"

text \<open>
  Everything the handlers use that is declared outside \<^verbatim>\<open>alloc_endpoint.go\<close> is a field of
  the environment. An RPC call takes the transport, the method name and the request and
  gives back the filled reply and the error (\<open>None\<close> is \<^verbatim>\<open>nil\<close>); the reply type at the
  call site selects the field. \<open>parse\<close> takes the options as they are and returns whether
  it has already answered the request, and the options as it leaves them.
  \<open>GenericResponse0\<close> and \<open>QueryOptions0\<close> are the zero values of the two opaque structs.
\<close>

record ('e, 'q, 'g, 'st, 'ts, 'fs) agent =
  ErrInvalidMethod :: string
  ErrPermissionDenied :: 'e
  EOF :: 'e
  ErrUnexpectedEOF :: 'e
  SyntaxError :: "char \<Rightarrow> string \<Rightarrow> 'e"
  errorText :: "'e \<Rightarrow> string"
  IsErrNoNodeConn :: "'e error \<Rightarrow> bool"
  IsErrUnknownAllocation :: "'e error \<Rightarrow> bool"
  QueryOptions0 :: 'q
  GenericResponse0 :: 'g
  parse :: "request \<Rightarrow> 'q \<Rightarrow> bool \<times> 'q"
  parseToken :: "request \<Rightarrow> string"
  decodeBody :: "request \<Rightarrow> 'e + (string \<times> string \<times> string \<times> 'q)"
  unmarshal :: "string \<Rightarrow> 'e + string"
  rpcHandlerForAlloc :: "string \<Rightarrow> bool \<times> bool \<times> bool"
  rpcHandlerForNode :: "string \<Rightarrow> bool \<times> bool \<times> bool"
  RPC_List :: "transport \<Rightarrow> string \<Rightarrow> 'q args \<Rightarrow> 'ts AllocListStub list option \<times> 'e option"
  RPC_Single :: "transport \<Rightarrow> string \<Rightarrow> 'q args \<Rightarrow> nat option \<times> 'e option"
  RPC_Generic :: "transport \<Rightarrow> string \<Rightarrow> 'q args \<Rightarrow> 'g \<times> 'e option"
  RPC_Stats :: "transport \<Rightarrow> string \<Rightarrow> 'q args \<Rightarrow> 'st option \<times> 'e option"
  ValidateMigrateToken :: "string \<Rightarrow> string \<Rightarrow> bool"
  GetAllocFS :: "string \<Rightarrow> 'e + 'fs"
  Snapshot :: "'fs \<Rightarrow> 'e option"
  snappyDecode :: "bytes \<Rightarrow> 'e + bytes"
  setDisplayMsg :: "'ts \<Rightarrow> 'ts"

text \<open>\<^verbatim>\<open>err.Error()\<close>: the text of an error; a coded error answers with its message.\<close>

fun Error :: "('e, 'q, 'g, 'st, 'ts, 'fs) agent \<Rightarrow> 'e error \<Rightarrow> string" where
  "Error s (CodedError c m) = m"
| "Error s (Errorf m) = m"
| "Error s (Foreign e) = errorText s e"

definition allocNotFoundErr :: string where
  "allocNotFoundErr = ''allocation not found''"

section \<open>The JSON decoder\<close>

text \<open>
  \<^verbatim>\<open>allocRestart\<close> reads its body with \<^verbatim>\<open>json.NewDecoder(req.Body).Decode\<close>. Whether a body
  is refused is decided by that decoder, which is part of Go's \<^verbatim>\<open>encoding/json\<close> and not
  of this repository; what follows transcribes the part that decides it: the byte-wise
  scanner of \<^verbatim>\<open>scanner.go\<close> (the state functions, \<^verbatim>\<open>pushParseState\<close>, \<^verbatim>\<open>popParseState\<close>,
  \<^verbatim>\<open>eof\<close>, \<^verbatim>\<open>checkValid\<close>) and \<^verbatim>\<open>Decoder.readValue\<close> of \<^verbatim>\<open>stream.go\<close>.

  The scanner is a pushdown automaton. Its \<^verbatim>\<open>step\<close> field holds the state function to
  call on the next byte, here the name of that function; \<^verbatim>\<open>parseState\<close> is the stack of
  open objects and arrays, the innermost last; \<^verbatim>\<open>endTop\<close> says that the top-level value
  is complete; \<^verbatim>\<open>err\<close> (here \<open>scanErr\<close>) is the recorded syntax error, the offending byte
  and the context of the message. A step returns one of the \<open>scan\<close> codes. The four
  functions for the hexadecimal digits of a \<^verbatim>\<open>\u\<close> escape are the one function
  \<open>hexEscape\<close>, and the ten functions for the letters of \<^verbatim>\<open>true\<close>, \<^verbatim>\<open>false\<close> and \<^verbatim>\<open>null\<close> are
  the one function \<open>literalByte\<close>, each with the next state as an argument.
\<close>

datatype scan =
    scanContinue | scanBeginLiteral | scanBeginObject | scanObjectKey | scanObjectValue
  | scanEndObject | scanBeginArray | scanArrayValue | scanEndArray | scanSkipSpace
  | scanEnd | scanError

datatype parseKind = parseObjectKey | parseObjectValue | parseArrayValue

datatype state =
    StateBeginValueOrEmpty | StateBeginValue | StateBeginStringOrEmpty | StateBeginString
  | StateEndValue | StateEndTop
  | StateInString | StateInStringEsc | StateInStringEscU | StateInStringEscU1
  | StateInStringEscU12 | StateInStringEscU123
  | StateNeg | State1 | State0 | StateDot | StateDot0 | StateE | StateESign | StateE0
  | StateT | StateTr | StateTru | StateF | StateFa | StateFal | StateFals
  | StateN | StateNu | StateNul | StateError

record scanner =
  step :: state
  parseState :: "parseKind list"
  endTop :: bool
  scanErr :: "(char \<times> string) option"

text \<open>The limit on nesting that \<^verbatim>\<open>pushParseState\<close> enforces.\<close>

definition maxNestingDepth :: nat where
  "maxNestingDepth = 10000"

definition reset :: scanner where
  "reset = \<lparr>step = StateBeginValue, parseState = [], endTop = False, scanErr = None\<rparr>"

definition isSpace :: "char \<Rightarrow> bool" where
  "isSpace c = (c = CHR '' '' \<or> c = CHR 0x09 \<or> c = CHR 0x0D \<or> c = CHR 0x0A)"

definition isDigit :: "char \<Rightarrow> bool" where
  "isDigit c = (c \<in> set ''0123456789'')"

definition isDigit19 :: "char \<Rightarrow> bool" where
  "isDigit19 c = (c \<in> set ''123456789'')"

definition isHex :: "char \<Rightarrow> bool" where
  "isHex c = (c \<in> set ''0123456789abcdefABCDEF'')"

text \<open>\<^verbatim>\<open>s.error(c, context)\<close>: record the error and stay in \<^verbatim>\<open>stateError\<close>.\<close>

definition scanner_error :: "scanner \<Rightarrow> char \<Rightarrow> string \<Rightarrow> scan \<times> scanner" where
  "scanner_error s c context = (scanError, s\<lparr>step := StateError, scanErr := Some (c, context)\<rparr>)"

definition pushParseState :: "scanner \<Rightarrow> char \<Rightarrow> parseKind \<Rightarrow> scan \<Rightarrow> scan \<times> scanner" where
  "pushParseState s c newParseState successState =
     (let s1 = s\<lparr>parseState := parseState s @ [newParseState]\<rparr>
      in if length (parseState s1) \<le> maxNestingDepth then (successState, s1)
         else scanner_error s1 c ''exceeded max depth'')"

definition popParseState :: "scanner \<Rightarrow> scanner" where
  "popParseState s =
     (let ps = butlast (parseState s)
      in if length ps = 0 then s\<lparr>parseState := ps, step := StateEndTop, endTop := True\<rparr>
         else s\<lparr>parseState := ps, step := StateEndValue\<rparr>)"

text \<open>
  \<^verbatim>\<open>stateEndTop\<close>: the top-level value is complete. A byte that is not white space is an
  error, but the answer is \<^verbatim>\<open>scanEnd\<close> all the same: the complaint is left to the next call.
\<close>

definition stateEndTop :: "scanner \<Rightarrow> char \<Rightarrow> scan \<times> scanner" where
  "stateEndTop s c =
     (if \<not> isSpace c then (scanEnd, snd (scanner_error s c ''after top-level value''))
      else (scanEnd, s))"

definition stateEndValue :: "scanner \<Rightarrow> char \<Rightarrow> scan \<times> scanner" where
  "stateEndValue s c =
     (let n = length (parseState s) in
      if n = 0 then stateEndTop (s\<lparr>step := StateEndTop, endTop := True\<rparr>) c
      else if isSpace c then (scanSkipSpace, s\<lparr>step := StateEndValue\<rparr>)
      else
        (case last (parseState s) of
           parseObjectKey \<Rightarrow>
             if c = CHR '':'' then
               (scanObjectKey,
                s\<lparr>parseState := (parseState s)[n - 1 := parseObjectValue], step := StateBeginValue\<rparr>)
             else scanner_error s c ''after object key''
         | parseObjectValue \<Rightarrow>
             if c = CHR '','' then
               (scanObjectValue,
                s\<lparr>parseState := (parseState s)[n - 1 := parseObjectKey], step := StateBeginString\<rparr>)
             else if c = CHR ''}'' then (scanEndObject, popParseState s)
             else scanner_error s c ''after object key:value pair''
         | parseArrayValue \<Rightarrow>
             if c = CHR '','' then (scanArrayValue, s\<lparr>step := StateBeginValue\<rparr>)
             else if c = CHR '']'' then (scanEndArray, popParseState s)
             else scanner_error s c ''after array element''))"

definition stateBeginValue :: "scanner \<Rightarrow> char \<Rightarrow> scan \<times> scanner" where
  "stateBeginValue s c =
     (if isSpace c then (scanSkipSpace, s)
      else if c = CHR ''{'' then
        pushParseState (s\<lparr>step := StateBeginStringOrEmpty\<rparr>) c parseObjectKey scanBeginObject
      else if c = CHR ''['' then
        pushParseState (s\<lparr>step := StateBeginValueOrEmpty\<rparr>) c parseArrayValue scanBeginArray
      else if c = CHR 0x22 then (scanBeginLiteral, s\<lparr>step := StateInString\<rparr>)
      else if c = CHR ''-'' then (scanBeginLiteral, s\<lparr>step := StateNeg\<rparr>)
      else if c = CHR ''0'' then (scanBeginLiteral, s\<lparr>step := State0\<rparr>)
      else if c = CHR ''t'' then (scanBeginLiteral, s\<lparr>step := StateT\<rparr>)
      else if c = CHR ''f'' then (scanBeginLiteral, s\<lparr>step := StateF\<rparr>)
      else if c = CHR ''n'' then (scanBeginLiteral, s\<lparr>step := StateN\<rparr>)
      else if isDigit19 c then (scanBeginLiteral, s\<lparr>step := State1\<rparr>)
      else scanner_error s c ''looking for beginning of value'')"

definition stateBeginValueOrEmpty :: "scanner \<Rightarrow> char \<Rightarrow> scan \<times> scanner" where
  "stateBeginValueOrEmpty s c =
     (if isSpace c then (scanSkipSpace, s)
      else if c = CHR '']'' then stateEndValue s c
      else stateBeginValue s c)"

definition stateBeginString :: "scanner \<Rightarrow> char \<Rightarrow> scan \<times> scanner" where
  "stateBeginString s c =
     (if isSpace c then (scanSkipSpace, s)
      else if c = CHR 0x22 then (scanBeginLiteral, s\<lparr>step := StateInString\<rparr>)
      else scanner_error s c ''looking for beginning of object key string'')"

definition stateBeginStringOrEmpty :: "scanner \<Rightarrow> char \<Rightarrow> scan \<times> scanner" where
  "stateBeginStringOrEmpty s c =
     (if isSpace c then (scanSkipSpace, s)
      else if c = CHR ''}'' then
        stateEndValue
          (s\<lparr>parseState := (parseState s)[length (parseState s) - 1 := parseObjectValue]\<rparr>) c
      else stateBeginString s c)"

definition stateInString :: "scanner \<Rightarrow> char \<Rightarrow> scan \<times> scanner" where
  "stateInString s c =
     (if c = CHR 0x22 then (scanContinue, s\<lparr>step := StateEndValue\<rparr>)
      else if c = CHR 0x5C then (scanContinue, s\<lparr>step := StateInStringEsc\<rparr>)
      else if (of_char c :: nat) < 0x20 then scanner_error s c ''in string literal''
      else (scanContinue, s))"

definition stateInStringEsc :: "scanner \<Rightarrow> char \<Rightarrow> scan \<times> scanner" where
  "stateInStringEsc s c =
     (if c \<in> set [CHR ''b'', CHR ''f'', CHR ''n'', CHR ''r'', CHR ''t'', CHR 0x5C, CHR ''/'', CHR 0x22]
      then (scanContinue, s\<lparr>step := StateInString\<rparr>)
      else if c = CHR ''u'' then (scanContinue, s\<lparr>step := StateInStringEscU\<rparr>)
      else scanner_error s c ''in string escape code'')"

definition hexEscape :: "state \<Rightarrow> scanner \<Rightarrow> char \<Rightarrow> scan \<times> scanner" where
  "hexEscape next s c =
     (if isHex c then (scanContinue, s\<lparr>step := next\<rparr>)
      else scanner_error s c (''in '' @ [CHR 0x5C] @ ''u hexadecimal character escape''))"

definition state0 :: "scanner \<Rightarrow> char \<Rightarrow> scan \<times> scanner" where
  "state0 s c =
     (if c = CHR ''.'' then (scanContinue, s\<lparr>step := StateDot\<rparr>)
      else if c = CHR ''e'' \<or> c = CHR ''E'' then (scanContinue, s\<lparr>step := StateE\<rparr>)
      else stateEndValue s c)"

definition state1 :: "scanner \<Rightarrow> char \<Rightarrow> scan \<times> scanner" where
  "state1 s c =
     (if isDigit c then (scanContinue, s\<lparr>step := State1\<rparr>)
      else state0 s c)"

definition stateNeg :: "scanner \<Rightarrow> char \<Rightarrow> scan \<times> scanner" where
  "stateNeg s c =
     (if c = CHR ''0'' then (scanContinue, s\<lparr>step := State0\<rparr>)
      else if isDigit19 c then (scanContinue, s\<lparr>step := State1\<rparr>)
      else scanner_error s c ''in numeric literal'')"

definition stateDot :: "scanner \<Rightarrow> char \<Rightarrow> scan \<times> scanner" where
  "stateDot s c =
     (if isDigit c then (scanContinue, s\<lparr>step := StateDot0\<rparr>)
      else scanner_error s c ''after decimal point in numeric literal'')"

definition stateDot0 :: "scanner \<Rightarrow> char \<Rightarrow> scan \<times> scanner" where
  "stateDot0 s c =
     (if isDigit c then (scanContinue, s)
      else if c = CHR ''e'' \<or> c = CHR ''E'' then (scanContinue, s\<lparr>step := StateE\<rparr>)
      else stateEndValue s c)"

definition stateESign :: "scanner \<Rightarrow> char \<Rightarrow> scan \<times> scanner" where
  "stateESign s c =
     (if isDigit c then (scanContinue, s\<lparr>step := StateE0\<rparr>)
      else scanner_error s c ''in exponent of numeric literal'')"

definition stateE :: "scanner \<Rightarrow> char \<Rightarrow> scan \<times> scanner" where
  "stateE s c =
     (if c = CHR ''+'' \<or> c = CHR ''-'' then (scanContinue, s\<lparr>step := StateESign\<rparr>)
      else stateESign s c)"

definition stateE0 :: "scanner \<Rightarrow> char \<Rightarrow> scan \<times> scanner" where
  "stateE0 s c =
     (if isDigit c then (scanContinue, s)
      else stateEndValue s c)"

definition literalByte :: "char \<Rightarrow> state \<Rightarrow> string \<Rightarrow> scanner \<Rightarrow> char \<Rightarrow> scan \<times> scanner" where
  "literalByte expected next literal s c =
     (if c = expected then (scanContinue, s\<lparr>step := next\<rparr>)
      else scanner_error s c
             (''in literal '' @ literal @ '' (expecting '' @ [CHR 0x27, expected, CHR 0x27] @ '')''))"

text \<open>\<^verbatim>\<open>s.step(s, c)\<close>: the call of the current state function.\<close>

definition stepOn :: "scanner \<Rightarrow> char \<Rightarrow> scan \<times> scanner" where
  "stepOn s c =
     (case step s of
        StateBeginValueOrEmpty \<Rightarrow> stateBeginValueOrEmpty s c
      | StateBeginValue \<Rightarrow> stateBeginValue s c
      | StateBeginStringOrEmpty \<Rightarrow> stateBeginStringOrEmpty s c
      | StateBeginString \<Rightarrow> stateBeginString s c
      | StateEndValue \<Rightarrow> stateEndValue s c
      | StateEndTop \<Rightarrow> stateEndTop s c
      | StateInString \<Rightarrow> stateInString s c
      | StateInStringEsc \<Rightarrow> stateInStringEsc s c
      | StateInStringEscU \<Rightarrow> hexEscape StateInStringEscU1 s c
      | StateInStringEscU1 \<Rightarrow> hexEscape StateInStringEscU12 s c
      | StateInStringEscU12 \<Rightarrow> hexEscape StateInStringEscU123 s c
      | StateInStringEscU123 \<Rightarrow> hexEscape StateInString s c
      | StateNeg \<Rightarrow> stateNeg s c
      | State1 \<Rightarrow> state1 s c
      | State0 \<Rightarrow> state0 s c
      | StateDot \<Rightarrow> stateDot s c
      | StateDot0 \<Rightarrow> stateDot0 s c
      | StateE \<Rightarrow> stateE s c
      | StateESign \<Rightarrow> stateESign s c
      | StateE0 \<Rightarrow> stateE0 s c
      | StateT \<Rightarrow> literalByte CHR ''r'' StateTr ''true'' s c
      | StateTr \<Rightarrow> literalByte CHR ''u'' StateTru ''true'' s c
      | StateTru \<Rightarrow> literalByte CHR ''e'' StateEndValue ''true'' s c
      | StateF \<Rightarrow> literalByte CHR ''a'' StateFa ''false'' s c
      | StateFa \<Rightarrow> literalByte CHR ''l'' StateFal ''false'' s c
      | StateFal \<Rightarrow> literalByte CHR ''s'' StateFals ''false'' s c
      | StateFals \<Rightarrow> literalByte CHR ''e'' StateEndValue ''false'' s c
      | StateN \<Rightarrow> literalByte CHR ''u'' StateNu ''null'' s c
      | StateNu \<Rightarrow> literalByte CHR ''l'' StateNul ''null'' s c
      | StateNul \<Rightarrow> literalByte CHR ''l'' StateEndValue ''null'' s c
      | StateError \<Rightarrow> (scanError, s))"

text \<open>
  \<^verbatim>\<open>scanner.eof\<close>: whether the input may end here. An error recorded earlier, even one
  whose report was put off by \<^verbatim>\<open>stateEndTop\<close>, makes it fail.
\<close>

definition eof :: "scanner \<Rightarrow> bool" where
  "eof s =
     (if scanErr s \<noteq> None then False
      else if endTop s then True
      else endTop (snd (stepOn s (CHR '' ''))))"

text \<open>
  \<^verbatim>\<open>checkValid\<close>, which is \<^verbatim>\<open>json.Valid\<close>: every byte is stepped over without a
  \<^verbatim>\<open>scanError\<close> and the input may end where it ends.
\<close>

fun checkValidFrom :: "scanner \<Rightarrow> string \<Rightarrow> bool" where
  "checkValidFrom s [] = eof s"
| "checkValidFrom s (c # cs) =
     (case stepOn s c of (r, s1) \<Rightarrow> if r = scanError then False else checkValidFrom s1 cs)"

definition Valid :: "string \<Rightarrow> bool" where
  "Valid data = checkValidFrom reset data"

text \<open>
  \<^verbatim>\<open>Decoder.readValue\<close> on a decoder that has read nothing yet and whose reader holds the
  whole body: the number of bytes of the buffer that make up the first value, or the
  error. It stops at the first byte on which the scanner answers \<^verbatim>\<open>scanEnd\<close> (that byte is
  not part of the value), or just after the bracket that closes the top-level object or
  array; a \<^verbatim>\<open>scanError\<close> is returned as the recorded error. At the end of the body the
  value is complete if a space would end it; otherwise the error is
  \<^verbatim>\<open>io.ErrUnexpectedEOF\<close> when the buffer holds anything but white space, and \<^verbatim>\<open>io.EOF\<close>
  when it does not.
\<close>

datatype readResult = ReadValue nat | ReadSyntaxError "(char \<times> string) option" | ReadUnexpectedEOF | ReadEOF

definition nonSpace :: "string \<Rightarrow> bool" where
  "nonSpace b = (\<exists>c \<in> set b. \<not> isSpace c)"

fun readValueFrom :: "scanner \<Rightarrow> string \<Rightarrow> nat \<Rightarrow> string \<Rightarrow> readResult" where
  "readValueFrom s [] scanp buf =
     (if fst (stepOn s (CHR '' '')) = scanEnd then ReadValue scanp
      else if nonSpace buf then ReadUnexpectedEOF
      else ReadEOF)"
| "readValueFrom s (c # cs) scanp buf =
     (case stepOn s c of (r, s1) \<Rightarrow>
        if r = scanEnd then ReadValue scanp
        else if r = scanEndObject \<or> r = scanEndArray then
          (case stateEndValue s1 (CHR '' '') of (r2, s2) \<Rightarrow>
             if r2 = scanEnd then ReadValue (scanp + 1)
             else readValueFrom s2 cs (scanp + 1) buf)
        else if r = scanError then ReadSyntaxError (scanErr s1)
        else readValueFrom s1 cs (scanp + 1) buf)"

definition readValue :: "string \<Rightarrow> readResult" where
  "readValue buf = readValueFrom reset buf 0 buf"

text \<open>
  Three shapes a step can have, used to reason about the automaton: it ends in a call of
  \<open>stateEndValue\<close> on a scanner with the same \<open>endTop\<close>, it is a call of \<open>stateEndTop\<close>, or
  it neither ends a value nor touches \<open>endTop\<close>.
\<close>

definition plain :: "scanner \<Rightarrow> scan \<times> scanner \<Rightarrow> bool" where
  "plain s p = (endTop (snd p) = endTop s \<and> fst p \<noteq> scanEnd \<and> fst p \<noteq> scanEndObject \<and> fst p \<noteq> scanEndArray)"

definition viaEndValue :: "scanner \<Rightarrow> char \<Rightarrow> scan \<times> scanner \<Rightarrow> bool" where
  "viaEndValue s c p = (\<exists>s0. p = stateEndValue s0 c \<and> endTop s0 = endTop s)"

definition stepShape :: "scanner \<Rightarrow> char \<Rightarrow> scan \<times> scanner \<Rightarrow> bool" where
  "stepShape s c p = (plain s p \<or> viaEndValue s c p \<or> p = stateEndTop s c)"

section \<open>Collaborators modelled from their description\<close>

text \<open>
  \<^verbatim>\<open>json.NewDecoder(req.Body).Decode(&reqBody)\<close> with \<^verbatim>\<open>reqBody\<close> of type
  \<^verbatim>\<open>struct { TaskName string }\<close>: \<^verbatim>\<open>readValue\<close> finds the first value of the body, and
  its bytes, \<^verbatim>\<open>buf[0:n]\<close>, are unmarshalled into the struct. The result is the decoded
  \<^verbatim>\<open>TaskName\<close> or the error. The scanner's error, \<^verbatim>\<open>io.EOF\<close> and \<^verbatim>\<open>io.ErrUnexpectedEOF\<close>
  are error values of the environment; so is \<open>unmarshal\<close>, the step from the text of a
  value to the \<^verbatim>\<open>TaskName\<close> (or to a type error). The scanner never answers \<^verbatim>\<open>scanError\<close>
  without recording an error; were the record empty, Go would see a \<^verbatim>\<open>nil\<close> error and go
  on with no bytes.
\<close>

definition Decode :: "('e, 'q, 'g, 'st, 'ts, 'fs) agent \<Rightarrow> string \<Rightarrow> 'e + string" where
  "Decode s body =
     (case readValue body of
        ReadValue n \<Rightarrow> unmarshal s (take n body)
      | ReadSyntaxError None \<Rightarrow> unmarshal s (take 0 body)
      | ReadSyntaxError (Some (c, context)) \<Rightarrow> Inl (SyntaxError s c context)
      | ReadUnexpectedEOF \<Rightarrow> Inl (ErrUnexpectedEOF s)
      | ReadEOF \<Rightarrow> Inl (EOF s))"

text \<open>
  Modelled from the spec: \<^verbatim>\<open>SetEventDisplayMessages\<close>, a method of \<^verbatim>\<open>structs.Allocation\<close> and
  of \<^verbatim>\<open>structs.AllocListStub\<close>, is not among the sources. The spec calls it the
  event-message projection, derived from the task events at read time; it is modelled as
  an in-place update of the \<^verbatim>\<open>TaskStates\<close> of the object, by the environment's
  \<open>setDisplayMsg\<close>, that leaves every other field as it is.
\<close>

definition SetEventDisplayMessages ::
  "('e, 'q, 'g, 'st, 'ts, 'fs) agent \<Rightarrow> 'ts heap \<Rightarrow> nat \<Rightarrow> 'ts heap" where
  "SetEventDisplayMessages s h p =
     h\<lparr>allocs := (allocs h)[p := (allocs h ! p)\<lparr>TaskStates := setDisplayMsg s (TaskStates (allocs h ! p))\<rparr>]\<rparr>"

fun StubSetEventDisplayMessages ::
  "('e, 'q, 'g, 'st, 'ts, 'fs) agent \<Rightarrow> 'ts AllocListStub \<Rightarrow> 'ts AllocListStub" where
  "StubSetEventDisplayMessages s (AllocListStub i ts) = AllocListStub i (setDisplayMsg s ts)"

text \<open>
  Modelled from the spec: \<^verbatim>\<open>Allocation.Copy\<close> is not among the sources. The spec asks for a
  copy of the allocation such that the original is never mutated by what is then written
  to the copy: a new allocation object with the same fields, whose \<^verbatim>\<open>Job\<close>, when there is
  one, points to a new job object with the same payload. The result is the store with the
  new objects and the pointer to the new allocation.
\<close>

definition Copy :: "'ts heap \<Rightarrow> nat \<Rightarrow> 'ts heap \<times> nat" where
  "Copy h p =
     (let a = allocs h ! p in
      case Job a of
        None \<Rightarrow> (h\<lparr>allocs := allocs h @ [a]\<rparr>, length (allocs h))
      | Some j \<Rightarrow>
          (h\<lparr>allocs := allocs h @ [a\<lparr>Job := Some (length (jobs h))\<rparr>],
             jobs := jobs h @ [jobs h ! j]\<rparr>,
           length (allocs h)))"

text \<open>
  The assignment \<^verbatim>\<open>alloc.Job.Payload = decoded\<close>. The handler only reaches it with a
  non-nil \<^verbatim>\<open>Job\<close>; a nil one would make Go panic, and the store is then left as it is.
\<close>

definition setJobPayload :: "'ts heap \<Rightarrow> nat \<Rightarrow> bytes \<Rightarrow> 'ts heap" where
  "setJobPayload h p decoded =
     (case Job (allocs h ! p) of
        None \<Rightarrow> h
      | Some j \<Rightarrow> h\<lparr>jobs := (jobs h)[j := (jobs h ! j)\<lparr>Payload := decoded\<rparr>]\<rparr>)"

section \<open>The handlers\<close>

text \<open>
  The block under the comment \<^verbatim>\<open>// Make the RPC\<close>, which \<^verbatim>\<open>ClientGCRequest\<close>,
  \<^verbatim>\<open>allocRestart\<close>, \<^verbatim>\<open>allocGC\<close>, \<^verbatim>\<open>allocSignal\<close> and \<^verbatim>\<open>allocStats\<close> each spell out: the
  three flags are tried in the order local client, client RPC, server RPC, the method
  name is \<^verbatim>\<open>Allocations.<op>\<close> on the local client and \<^verbatim>\<open>ClientAllocations.<op>\<close> on the
  two others, and with no flag set no call is made, the reply keeps its zero value and
  the error is a coded 400.
\<close>

definition makeRPC ::
  "(transport \<Rightarrow> string \<Rightarrow> 'q args \<Rightarrow> 'r \<times> 'e option) \<Rightarrow> 'r \<Rightarrow> bool \<times> bool \<times> bool \<Rightarrow>
   string \<Rightarrow> 'q args \<Rightarrow> 'r \<times> 'e error option \<times> 'q event list" where
  "makeRPC rpc reply0 use op a =
     (case use of (useLocalClient, useClientRPC, useServerRPC) \<Rightarrow>
        if useLocalClient then
          (case rpc LocalClientRPC (''Allocations.'' @ op) a of
             (reply, e) \<Rightarrow> (reply, map_option Foreign e, [EvRPC LocalClientRPC (''Allocations.'' @ op) a]))
        else if useClientRPC then
          (case rpc ClientRPC (''ClientAllocations.'' @ op) a of
             (reply, e) \<Rightarrow> (reply, map_option Foreign e, [EvRPC ClientRPC (''ClientAllocations.'' @ op) a]))
        else if useServerRPC then
          (case rpc ServerRPC (''ClientAllocations.'' @ op) a of
             (reply, e) \<Rightarrow> (reply, map_option Foreign e, [EvRPC ServerRPC (''ClientAllocations.'' @ op) a]))
        else (reply0, Some (CodedError 400 ''No local Node and node_id not provided''), []))"

definition AllocsRequest ::
  "('e, 'q, 'g, 'st, 'ts, 'fs) agent \<Rightarrow> request \<Rightarrow>
   ('g, 'st, 'ts) result \<times> 'e error option \<times> 'q event list" where
  "AllocsRequest s req =
     (if Method req \<noteq> ''GET'' then (Nil, Some (CodedError 405 (ErrInvalidMethod s)), [])
      else
        (case parse s req (QueryOptions0 s) of (answered, qo) \<Rightarrow>
           if answered then (Nil, None, [])
           else
             (case RPC_List s AgentRPC ''Alloc.List'' (AllocListRequest qo) of
                (out, Some e) \<Rightarrow>
                  (Nil, Some (Foreign e), [EvRPC AgentRPC ''Alloc.List'' (AllocListRequest qo)])
              | (out, None) \<Rightarrow>
                  (let allocations = (if out = None then Some [] else out)
                   in (Stubs (map_option (map (StubSetEventDisplayMessages s)) allocations), None,
                       [EvRPC AgentRPC ''Alloc.List'' (AllocListRequest qo), EvSetMeta])))))"

definition allocGet ::
  "('e, 'q, 'g, 'st, 'ts, 'fs) agent \<Rightarrow> 'ts heap \<Rightarrow> string \<Rightarrow> request \<Rightarrow>
   ('g, 'st, 'ts) result \<times> 'e error option \<times> 'ts heap \<times> 'q event list" where
  "allocGet s h allocID req =
     (if Method req \<noteq> ''GET'' then (Nil, Some (CodedError 405 (ErrInvalidMethod s)), h, [])
      else
        (case parse s req (QueryOptions0 s) of (answered, qo) \<Rightarrow>
           if answered then (Nil, None, h, [])
           else
             (let call = EvRPC AgentRPC ''Alloc.GetAlloc'' (AllocSpecificRequest allocID qo) in
              case RPC_Single s AgentRPC ''Alloc.GetAlloc'' (AllocSpecificRequest allocID qo) of
                (out, Some e) \<Rightarrow> (Nil, Some (Foreign e), h, [call])
              | (None, None) \<Rightarrow> (Nil, Some (CodedError 404 ''alloc not found''), h, [call, EvSetMeta])
              | (Some alloc, None) \<Rightarrow>
                  (case Job (allocs h ! alloc) of
                     None \<Rightarrow>
                       (AllocPtr alloc, None, SetEventDisplayMessages s h alloc, [call, EvSetMeta])
                   | Some j \<Rightarrow>
                       if length (Payload (jobs h ! j)) \<noteq> 0 then
                         (case snappyDecode s (Payload (jobs h ! j)) of
                            Inl e \<Rightarrow>
                              (Nil, Some (Foreign e), h,
                               [call, EvSetMeta, EvSnappyDecode (Payload (jobs h ! j))])
                          | Inr decoded \<Rightarrow>
                              (case Copy h alloc of (h1, alloc1) \<Rightarrow>
                                 (AllocPtr alloc1, None,
                                  SetEventDisplayMessages s (setJobPayload h1 alloc1 decoded) alloc1,
                                  [call, EvSetMeta, EvSnappyDecode (Payload (jobs h ! j)), EvCopy alloc])))
                       else
                         (AllocPtr alloc, None, SetEventDisplayMessages s h alloc, [call, EvSetMeta])))))"

definition ClientGCRequest ::
  "('e, 'q, 'g, 'st, 'ts, 'fs) agent \<Rightarrow> request \<Rightarrow>
   ('g, 'st, 'ts) result \<times> 'e error option \<times> 'q event list" where
  "ClientGCRequest s req =
     (let requestedNode = QueryGet (Query req) ''node_id'';
          a = NodeSpecificRequest requestedNode (snd (parse s req (QueryOptions0 s)))
      in case makeRPC (RPC_Generic s) (GenericResponse0 s) (rpcHandlerForNode s requestedNode)
                ''GarbageCollectAll'' a of
           (reply, rpcErr, calls) \<Rightarrow>
             (Nil,
              (case rpcErr of
                 None \<Rightarrow> None
               | Some e \<Rightarrow> if IsErrNoNodeConn s e then Some (CodedError 404 (Error s e)) else Some e),
              EvRpcHandlerForNode requestedNode # calls))"

definition allocRestart ::
  "('e, 'q, 'g, 'st, 'ts, 'fs) agent \<Rightarrow> string \<Rightarrow> request \<Rightarrow>
   ('g, 'st, 'ts) result \<times> 'e error option \<times> 'q event list" where
  "allocRestart s allocID req =
     (let qo = snd (parse s req (QueryOptions0 s)) in
      case Decode s (Body req) of
        Inl err \<Rightarrow> (Nil, Some (Foreign err), [])
      | Inr taskName \<Rightarrow>
          (let a = (if taskName \<noteq> [] then AllocRestartRequest allocID taskName qo
                    else AllocRestartRequest allocID [] qo)
           in case makeRPC (RPC_Generic s) (GenericResponse0 s) (rpcHandlerForAlloc s allocID)
                     ''Restart'' a of
                (reply, rpcErr, calls) \<Rightarrow>
                  (Generic reply,
                   (case rpcErr of
                      None \<Rightarrow> None
                    | Some e \<Rightarrow>
                        if IsErrNoNodeConn s e \<or> IsErrUnknownAllocation s e
                        then Some (CodedError 404 (Error s e)) else Some e),
                   EvRpcHandlerForAlloc allocID # calls)))"

definition allocGC ::
  "('e, 'q, 'g, 'st, 'ts, 'fs) agent \<Rightarrow> string \<Rightarrow> request \<Rightarrow>
   ('g, 'st, 'ts) result \<times> 'e error option \<times> 'q event list" where
  "allocGC s allocID req =
     (let a = AllocSpecificRequest allocID (snd (parse s req (QueryOptions0 s)))
      in case makeRPC (RPC_Generic s) (GenericResponse0 s) (rpcHandlerForAlloc s allocID)
                ''GarbageCollect'' a of
           (reply, rpcErr, calls) \<Rightarrow>
             (Nil,
              (case rpcErr of
                 None \<Rightarrow> None
               | Some e \<Rightarrow>
                   if IsErrNoNodeConn s e \<or> IsErrUnknownAllocation s e
                   then Some (CodedError 404 (Error s e)) else Some e),
              EvRpcHandlerForAlloc allocID # calls))"

definition allocSignal ::
  "('e, 'q, 'g, 'st, 'ts, 'fs) agent \<Rightarrow> string \<Rightarrow> request \<Rightarrow>
   ('g, 'st, 'ts) result \<times> 'e error option \<times> 'q event list" where
  "allocSignal s allocID req =
     (if \<not> (Method req = ''POST'' \<or> Method req = ''PUT'')
      then (Nil, Some (CodedError 405 (ErrInvalidMethod s)), [])
      else
        (case decodeBody s req of
           Inl err \<Rightarrow>
             (Nil, Some (CodedError 400 (''Failed to decode body: '' @ errorText s err)), [])
         | Inr (bodyAllocID, task, signal, bodyOptions) \<Rightarrow>
             (let a = AllocSignalRequest allocID task signal (snd (parse s req bodyOptions))
              in case makeRPC (RPC_Generic s) (GenericResponse0 s) (rpcHandlerForAlloc s allocID)
                        ''Signal'' a of
                   (reply, rpcErr, calls) \<Rightarrow>
                     (Generic reply,
                      (case rpcErr of
                         None \<Rightarrow> None
                       | Some e \<Rightarrow>
                           if IsErrNoNodeConn s e \<or> IsErrUnknownAllocation s e
                           then Some (CodedError 404 (Error s e)) else Some e),
                      EvRpcHandlerForAlloc allocID # calls))))"

definition allocSnapshot ::
  "('e, 'q, 'g, 'st, 'ts, 'fs) agent \<Rightarrow> string \<Rightarrow> request \<Rightarrow>
   ('g, 'st, 'ts) result \<times> 'e error option \<times> 'q event list" where
  "allocSnapshot s allocID req =
     (let secret = parseToken s req in
      if \<not> ValidateMigrateToken s allocID secret
      then (Nil, Some (Foreign (ErrPermissionDenied s)), [EvValidateMigrateToken allocID secret])
      else
        (case GetAllocFS s allocID of
           Inl err \<Rightarrow>
             (Nil, Some (Errorf allocNotFoundErr),
              [EvValidateMigrateToken allocID secret, EvGetAllocFS allocID])
         | Inr allocFS \<Rightarrow>
             (case Snapshot s allocFS of
                Some err \<Rightarrow>
                  (Nil, Some (Errorf (''error making snapshot: '' @ errorText s err)),
                   [EvValidateMigrateToken allocID secret, EvGetAllocFS allocID, EvSnapshot])
              | None \<Rightarrow>
                  (Nil, None,
                   [EvValidateMigrateToken allocID secret, EvGetAllocFS allocID, EvSnapshot]))))"

definition allocStats ::
  "('e, 'q, 'g, 'st, 'ts, 'fs) agent \<Rightarrow> string \<Rightarrow> request \<Rightarrow>
   ('g, 'st, 'ts) result \<times> 'e error option \<times> 'q event list" where
  "allocStats s allocID req =
     (let task = QueryGet (Query req) ''task'';
          a = AllocStatsRequest allocID task (snd (parse s req (QueryOptions0 s)))
      in case makeRPC (RPC_Stats s) None (rpcHandlerForAlloc s allocID) ''Stats'' a of
           (reply, rpcErr, calls) \<Rightarrow>
             (Stats reply,
              (case rpcErr of
                 None \<Rightarrow> None
               | Some e \<Rightarrow>
                   if IsErrNoNodeConn s e \<or> IsErrUnknownAllocation s e
                   then Some (CodedError 404 (Error s e)) else Some e),
              EvRpcHandlerForAlloc allocID # calls))"

section \<open>A concrete environment\<close>

text \<open>
  An agent small enough to run by hand. Foreign errors are their own text; the two
  recognisers of package \<^verbatim>\<open>structs\<close> accept one error each; allocation \<open>local\<close> is served
  by the local client, \<open>remote\<close> over client RPC, \<open>brokered\<close> through a server, and
  nothing else has a route; the local client answers, the client RPC path has no
  connection to the node and the server does not know the allocation; the only valid
  migrate token is \<open>secret\<close>; only \<open>local\<close> has an allocation directory; of the JSON
  values it only unmarshals the empty object and \<open>null\<close>, which set no task name.
\<close>

definition exampleAgent :: "(string, string, nat, nat, string list, nat) agent" where
  "exampleAgent =
     \<lparr>ErrInvalidMethod = ''Invalid method'',
      ErrPermissionDenied = ''Permission denied'',
      EOF = ''EOF'',
      ErrUnexpectedEOF = ''unexpected EOF'',
      SyntaxError = (\<lambda>c context. ''invalid character '' @ [c] @ '' '' @ context),
      errorText = (\<lambda>e. e),
      IsErrNoNodeConn = (\<lambda>e. e = Foreign ''No path to node''),
      IsErrUnknownAllocation = (\<lambda>e. e = Foreign ''Unknown allocation''),
      QueryOptions0 = [],
      GenericResponse0 = 0,
      parse = (\<lambda>req q. (False, QueryGet (Query req) ''region'')),
      parseToken = (\<lambda>req. QueryGet (Query req) ''token''),
      decodeBody = (\<lambda>req. if Body req = [] then Inl ''EOF''
                           else Inr (''elsewhere'', ''web'', ''SIGHUP'', [])),
      unmarshal = (\<lambda>v. if filter (\<lambda>c. \<not> isSpace c) v = ''{}'' \<or> filter (\<lambda>c. \<not> isSpace c) v = ''null''
                         then Inr [] else Inl ''json: cannot unmarshal''),
      rpcHandlerForAlloc = (\<lambda>a. (a = ''local'', a = ''remote'', a = ''brokered'')),
      rpcHandlerForNode = (\<lambda>n. (n = [], n = ''node1'', n = ''node2'')),
      RPC_List = (\<lambda>t m a. (None, None)),
      RPC_Single = (\<lambda>t m a. (Some 0, None)),
      RPC_Generic = (\<lambda>t m a. if t = LocalClientRPC then (1, None)
                              else if t = ClientRPC then (0, Some ''No path to node'')
                              else (0, Some ''Unknown allocation'')),
      RPC_Stats = (\<lambda>t m a. if t = LocalClientRPC then (Some 5, None)
                            else (None, Some ''Unknown allocation'')),
      ValidateMigrateToken = (\<lambda>a tok. tok = ''secret''),
      GetAllocFS = (\<lambda>a. if a = ''local'' then Inr 0 else Inl ''no such directory''),
      Snapshot = (\<lambda>fs. None),
      snappyDecode = (\<lambda>b. Inr (b @ b)),
      setDisplayMsg = map (\<lambda>m. if m = [] then ''Task event'' else m)\<rparr>"

text \<open>
  A store with one allocation, whose job carries the given payload and whose first task
  event has no display message yet.
\<close>

definition exampleHeap :: "bytes \<Rightarrow> string list heap" where
  "exampleHeap payload =
     \<lparr>allocs = [\<lparr>ID = ''local'', Job = Some 0, TaskStates = [[], ''Started'']\<rparr>],
      jobs = [\<lparr>Payload = payload\<rparr>]\<rparr>"

section \<open>Properties of the handlers\<close>

subsection \<open>List\<close>

text \<open>
  C7. A list request that gets through (method \<open>GET\<close>, \<open>parse\<close> did not answer, the RPC
  returned no error) returns a slice that is never \<^verbatim>\<open>nil\<close>: the stubs of the reply, each
  after \<^verbatim>\<open>SetEventDisplayMessages\<close>, in the reply's order. With no allocations in the
  reply, whether its slice is \<^verbatim>\<open>nil\<close> or empty, the result is the empty slice.
\<close>

theorem AllocsRequest_never_nil:
  assumes "Method req = ''GET''"
    and "parse s req (QueryOptions0 s) = (False, qo)"
    and "RPC_List s AgentRPC ''Alloc.List'' (AllocListRequest qo) = (out, None)"
  shows "AllocsRequest s req =
           (Stubs (Some (map (StubSetEventDisplayMessages s) (case out of None \<Rightarrow> [] | Some xs \<Rightarrow> xs))),
            None, [EvRPC AgentRPC ''Alloc.List'' (AllocListRequest qo), EvSetMeta])
         \<and> (out = None \<or> out = Some [] \<longrightarrow> fst (AllocsRequest s req) = Stubs (Some []))"
  using assms by (auto simp add: AllocsRequest_def Let_def split: option.splits)

theorem AllocsRequest_never_nil_witness:
  "Method \<lparr>Method = ''GET'', Query = [], Body = []\<rparr> = ''GET''
   \<and> parse exampleAgent \<lparr>Method = ''GET'', Query = [], Body = []\<rparr> (QueryOptions0 exampleAgent) = (False, [])
   \<and> RPC_List exampleAgent AgentRPC ''Alloc.List'' (AllocListRequest []) = (None, None)
   \<and> AllocsRequest exampleAgent \<lparr>Method = ''GET'', Query = [], Body = []\<rparr>
       = (Stubs (Some []), None, [EvRPC AgentRPC ''Alloc.List'' (AllocListRequest []), EvSetMeta])
   \<and> AllocsRequest
        (exampleAgent\<lparr>RPC_List := \<lambda>t m a. (Some [AllocListStub ''a1'' [[]], AllocListStub ''a2'' [''Started'']], None)\<rparr>)
        \<lparr>Method = ''GET'', Query = [], Body = []\<rparr>
       = (Stubs (Some [AllocListStub ''a1'' [''Task event''], AllocListStub ''a2'' [''Started'']]), None,
          [EvRPC AgentRPC ''Alloc.List'' (AllocListRequest []), EvSetMeta])"
  using AllocsRequest_never_nil [of "\<lparr>Method = ''GET'', Query = [], Body = []\<rparr>" exampleAgent "[]" None]
        AllocsRequest_never_nil [of "\<lparr>Method = ''GET'', Query = [], Body = []\<rparr>"
          "exampleAgent\<lparr>RPC_List := \<lambda>t m a. (Some [AllocListStub ''a1'' [[]], AllocListStub ''a2'' [''Started'']], None)\<rparr>"
          "[]" "Some [AllocListStub ''a1'' [[]], AllocListStub ''a2'' [''Started'']]"]
  by (simp add: exampleAgent_def QueryGet_def)

subsection \<open>The scanner\<close>

lemma isSpace_space: "isSpace (CHR '' '')"
  by (simp add: isSpace_def)

lemma stateEndTop_end: "fst (stateEndTop s c) = scanEnd"
  by (simp add: stateEndTop_def)

lemma stateEndValue_endTop:
  assumes "\<not> endTop s" and "stateEndValue s c = (r, s1)" and "endTop s1"
  shows "r = scanEnd \<or> r = scanEndObject \<or> r = scanEndArray"
  using assms
  by (auto simp add: stateEndValue_def stateEndTop_def scanner_error_def popParseState_def Let_def
           split: if_splits parseKind.splits)

lemma stateEndValue_space:
  assumes "\<not> endTop s" and "endTop (snd (stateEndValue s (CHR '' '')))"
  shows "fst (stateEndValue s (CHR '' '')) = scanEnd"
  using assms
  by (auto simp add: stateEndValue_def stateEndTop_def isSpace_space Let_def split: if_splits)

lemma stateEndValue_bracket:
  assumes "\<not> endTop s" and "stateEndValue s c = (r, s1)" and "r = scanEndObject \<or> r = scanEndArray"
  shows "fst (stateEndValue s1 (CHR '' '')) = scanEnd
         \<or> (stateEndValue s1 (CHR '' '') = (scanSkipSpace, s1) \<and> \<not> endTop s1)"
  using assms
  by (auto simp add: stateEndValue_def stateEndTop_def scanner_error_def popParseState_def
           isSpace_space Let_def split: if_splits parseKind.splits)

lemma viaEndValueI: "endTop s0 = endTop s \<Longrightarrow> viaEndValue s c (stateEndValue s0 c)"
  by (auto simp add: viaEndValue_def)

lemma plain_error: "plain s (scanner_error s c context)"
  by (simp add: plain_def scanner_error_def)

lemma plain_set_step: "r \<noteq> scanEnd \<Longrightarrow> r \<noteq> scanEndObject \<Longrightarrow> r \<noteq> scanEndArray \<Longrightarrow> plain s (r, s\<lparr>step := x\<rparr>)"
  by (simp add: plain_def)

lemma plain_same: "r \<noteq> scanEnd \<Longrightarrow> r \<noteq> scanEndObject \<Longrightarrow> r \<noteq> scanEndArray \<Longrightarrow> plain s (r, s)"
  by (simp add: plain_def)

lemma plain_stateBeginValue: "plain s (stateBeginValue s c)"
  by (simp add: stateBeginValue_def pushParseState_def Let_def plain_def scanner_error_def)

lemma plain_stateBeginString: "plain s (stateBeginString s c)"
  by (simp add: stateBeginString_def plain_def scanner_error_def)

lemma plain_stateInString: "plain s (stateInString s c)"
  by (simp add: stateInString_def plain_def scanner_error_def)

lemma plain_stateInStringEsc: "plain s (stateInStringEsc s c)"
  by (simp add: stateInStringEsc_def plain_def scanner_error_def)

lemma plain_hexEscape: "plain s (hexEscape x s c)"
  by (simp add: hexEscape_def plain_def scanner_error_def)

lemma plain_stateNeg: "plain s (stateNeg s c)"
  by (simp add: stateNeg_def plain_def scanner_error_def)

lemma plain_stateDot: "plain s (stateDot s c)"
  by (simp add: stateDot_def plain_def scanner_error_def)

lemma plain_stateESign: "plain s (stateESign s c)"
  by (simp add: stateESign_def plain_def scanner_error_def)

lemma plain_stateE: "plain s (stateE s c)"
  by (simp add: stateE_def stateESign_def plain_def scanner_error_def)

lemma plain_literalByte: "plain s (literalByte x y l s c)"
  by (simp add: literalByte_def plain_def scanner_error_def)

lemma shape_plain: "plain s p \<Longrightarrow> stepShape s c p"
  by (simp add: stepShape_def)

lemma shape_endValue: "endTop s0 = endTop s \<Longrightarrow> stepShape s c (stateEndValue s0 c)"
  by (simp add: stepShape_def viaEndValueI)

lemma shape_endTop: "stepShape s c (stateEndTop s c)"
  by (simp add: stepShape_def)

lemma shape_state0: "stepShape s c (state0 s c)"
  by (simp add: state0_def shape_endValue shape_plain plain_set_step)

lemma shape_state1: "stepShape s c (state1 s c)"
  by (simp add: state1_def shape_state0 shape_plain plain_set_step)

lemma shape_stateDot0: "stepShape s c (stateDot0 s c)"
  by (simp add: stateDot0_def shape_endValue shape_plain plain_set_step plain_same)

lemma shape_stateE0: "stepShape s c (stateE0 s c)"
  by (simp add: stateE0_def shape_endValue shape_plain plain_same)

lemma shape_stateBeginValueOrEmpty: "stepShape s c (stateBeginValueOrEmpty s c)"
  by (simp add: stateBeginValueOrEmpty_def shape_endValue shape_plain plain_same plain_stateBeginValue)

lemma shape_stateBeginStringOrEmpty: "stepShape s c (stateBeginStringOrEmpty s c)"
  by (simp add: stateBeginStringOrEmpty_def shape_endValue shape_plain plain_same plain_stateBeginString)

lemma shape_stepOn: "stepShape s c (stepOn s c)"
  by (cases "step s")
     (simp_all add: stepOn_def shape_plain shape_endValue shape_endTop
        plain_stateBeginValue plain_stateBeginString plain_stateInString
        plain_stateInStringEsc plain_hexEscape plain_stateNeg plain_stateDot plain_stateESign
        plain_stateE plain_literalByte shape_state0 shape_state1 shape_stateDot0 shape_stateE0
        shape_stateBeginValueOrEmpty shape_stateBeginStringOrEmpty plain_same)

lemma endTop_set:
  assumes "\<not> endTop s" and "stepOn s c = (r, s1)" and "endTop s1"
  shows "r = scanEnd \<or> r = scanEndObject \<or> r = scanEndArray"
proof -
  from shape_stepOn [of s c] consider
      "plain s (stepOn s c)" | s0 where "stepOn s c = stateEndValue s0 c" "endTop s0 = endTop s"
    | "stepOn s c = stateEndTop s c"
    by (auto simp add: stepShape_def viaEndValue_def)
  then show ?thesis
  proof cases
    case 1
    with assms show ?thesis by (simp add: plain_def)
  next
    case 2
    with assms stateEndValue_endTop [of s0 c r s1] show ?thesis by simp
  next
    case 3
    with assms(2) stateEndTop_end [of s c] show ?thesis by simp
  qed
qed

lemma endTop_on_space:
  assumes "\<not> endTop s" and "endTop (snd (stepOn s (CHR '' '')))"
  shows "fst (stepOn s (CHR '' '')) = scanEnd"
proof -
  from shape_stepOn [of s "CHR '' ''"] consider
      "plain s (stepOn s (CHR '' ''))"
    | s0 where "stepOn s (CHR '' '') = stateEndValue s0 (CHR '' '')" "endTop s0 = endTop s"
    | "stepOn s (CHR '' '') = stateEndTop s (CHR '' '')"
    by (auto simp add: stepShape_def viaEndValue_def)
  then show ?thesis
  proof cases
    case 1
    with assms show ?thesis by (simp add: plain_def)
  next
    case 2
    with assms stateEndValue_space [of s0] show ?thesis by simp
  next
    case 3
    with stateEndTop_end [of s "CHR '' ''"] show ?thesis by simp
  qed
qed

lemma end_bracket:
  assumes "\<not> endTop s" and "stepOn s c = (r, s1)" and "r = scanEndObject \<or> r = scanEndArray"
  shows "fst (stateEndValue s1 (CHR '' '')) = scanEnd
         \<or> (stateEndValue s1 (CHR '' '') = (scanSkipSpace, s1) \<and> \<not> endTop s1)"
proof -
  from shape_stepOn [of s c] consider
      "plain s (stepOn s c)" | s0 where "stepOn s c = stateEndValue s0 c" "endTop s0 = endTop s"
    | "stepOn s c = stateEndTop s c"
    by (auto simp add: stepShape_def viaEndValue_def)
  then show ?thesis
  proof cases
    case 1
    with assms show ?thesis by (auto simp add: plain_def)
  next
    case 2
    with assms stateEndValue_bracket [of s0 c r s1] show ?thesis by simp
  next
    case 3
    with assms stateEndTop_end [of s c] show ?thesis by auto
  qed
qed

lemma checkValid_readValue:
  "\<not> endTop s \<Longrightarrow> checkValidFrom s cs \<Longrightarrow> \<exists>n. readValueFrom s cs scanp buf = ReadValue n"
proof (induction cs arbitrary: s scanp)
  case Nil
  then show ?case
    by (auto simp add: eof_def dest: endTop_on_space split: if_splits)
next
  case (Cons c cs)
  obtain r s1 where st: "stepOn s c = (r, s1)" by (cases "stepOn s c")
  from Cons.prems st have ok: "r \<noteq> scanError" and rest: "checkValidFrom s1 cs"
    by (auto split: if_splits)
  show ?case
  proof (cases "r = scanEnd")
    case True
    with st show ?thesis by simp
  next
    case notEnd: False
    show ?thesis
    proof (cases "r = scanEndObject \<or> r = scanEndArray")
      case True
      from end_bracket [OF Cons.prems(1) st True] show ?thesis
      proof
        assume "fst (stateEndValue s1 (CHR '' '')) = scanEnd"
        with st True notEnd show ?thesis by (auto split: prod.splits)
      next
        assume a: "stateEndValue s1 (CHR '' '') = (scanSkipSpace, s1) \<and> \<not> endTop s1"
        with Cons.IH [of s1 "scanp + 1"] rest obtain n where "readValueFrom s1 cs (scanp + 1) buf = ReadValue n"
          by blast
        with st True notEnd a show ?thesis by auto
      qed
    next
      case False
      with endTop_set [OF Cons.prems(1) st] notEnd have "\<not> endTop s1" by blast
      with Cons.IH [of s1 "scanp + 1"] rest obtain n where "readValueFrom s1 cs (scanp + 1) buf = ReadValue n"
        by blast
      with st False notEnd ok show ?thesis by simp
    qed
  qed
qed

lemma Valid_readValue: "Valid body \<Longrightarrow> \<exists>n. readValue body = ReadValue n"
  unfolding Valid_def readValue_def
  by (rule checkValid_readValue) (simp_all add: reset_def)

lemma readValue_bound:
  "readValueFrom s cs scanp buf = ReadValue n \<Longrightarrow> scanp \<le> n \<and> n \<le> scanp + length cs"
proof (induction cs arbitrary: s scanp)
  case Nil
  then show ?case by (simp split: if_splits)
next
  case (Cons c cs)
  then show ?case
    by (fastforce split: prod.splits if_splits)
qed


lemma readValueFrom_spaces:
  "step s = StateBeginValue \<Longrightarrow> \<forall>c \<in> set cs. isSpace c \<Longrightarrow> \<not> nonSpace buf \<Longrightarrow>
   readValueFrom s cs scanp buf = ReadEOF"
  by (induction cs arbitrary: scanp)
     (simp_all add: stepOn_def stateBeginValue_def isSpace_space)

lemma readValue_spaces: "\<forall>c \<in> set body. isSpace c \<Longrightarrow> readValue body = ReadEOF"
  unfolding readValue_def
  by (rule readValueFrom_spaces) (auto simp add: reset_def nonSpace_def)

lemma readValueFrom_prefix:
  "readValueFrom s cs scanp buf = ReadValue n \<Longrightarrow> n < scanp + length cs \<Longrightarrow>
   readValueFrom s (take (Suc n - scanp) cs @ rest) scanp buf2 = ReadValue n"
proof (induction cs arbitrary: s scanp)
  case Nil
  then show ?case by (simp split: if_splits)
next
  case (Cons c cs)
  obtain r s1 where st: "stepOn s c = (r, s1)" by (cases "stepOn s c")
  obtain r2 s2 where st2: "stateEndValue s1 (CHR '' '') = (r2, s2)"
    by (cases "stateEndValue s1 (CHR '' '')")
  from Cons.prems(1) readValue_bound [of s "c # cs" scanp buf n] have le: "scanp \<le> n" by simp
  then have tk: "take (Suc n - scanp) (c # cs) = c # take (n - scanp) cs"
    by (simp add: Suc_diff_le)
  show ?case
  proof (cases "r = scanEnd \<or> r = scanError \<or> ((r = scanEndObject \<or> r = scanEndArray) \<and> r2 = scanEnd)")
    case True
    with Cons.prems st st2 tk show ?thesis by (auto split: if_splits)
  next
    case False
    define s3 where "s3 = (if r = scanEndObject \<or> r = scanEndArray then s2 else s1)"
    from False Cons.prems(1) st st2 have rec: "readValueFrom s3 cs (scanp + 1) buf = ReadValue n"
      by (auto simp add: s3_def split: if_splits)
    from readValue_bound [OF rec] have le2: "Suc scanp \<le> n" by simp
    from Cons.prems(2) have "n < (scanp + 1) + length cs" by simp
    from Cons.IH [OF rec this] have "readValueFrom s3 (take (Suc n - (scanp + 1)) cs @ rest) (scanp + 1) buf2 = ReadValue n" .
    moreover have "Suc n - (scanp + 1) = n - scanp" by simp
    ultimately have "readValueFrom s3 (take (n - scanp) cs @ rest) (scanp + 1) buf2 = ReadValue n" by simp
    with False st st2 tk show ?thesis by (auto simp add: s3_def split: if_splits)
  qed
qed

lemma readValue_prefix:
  "readValue body = ReadValue n \<Longrightarrow> n < length body \<Longrightarrow> readValue (take (Suc n) body @ rest) = ReadValue n"
  unfolding readValue_def
  using readValueFrom_prefix [of reset body 0 body n rest "take (Suc n) body @ rest"] by simp

subsection \<open>The first JSON value of a body\<close>

lemma readValue_empty_object: "readValue ''{}'' = ReadValue 2"
  by code_simp

lemma readValue_trailing_text: "readValue ''{}x'' = ReadValue 2"
  by code_simp

lemma readValue_open_brace: "readValue ''{'' = ReadUnexpectedEOF"
  by code_simp

lemma readValue_word:
  "readValue ''restart'' = ReadSyntaxError (Some (CHR ''r'', ''looking for beginning of value''))"
  by code_simp

lemma readValue_empty_array: "readValue ''[]'' = ReadValue 2"
  by code_simp

lemma readValue_nothing: "readValue [] = ReadEOF"
  by (simp add: readValue_spaces)

lemma Decode_empty_object: "Decode s ''{}'' = unmarshal s ''{}''"
  by (simp add: Decode_def readValue_empty_object)

lemma Decode_prefix:
  assumes "readValue body = ReadValue n" and "n < length body"
  shows "Decode s (take (Suc n) body @ rest) = Decode s body"
proof -
  from assms have rv: "readValue (take (Suc n) body @ rest) = ReadValue n"
    by (rule readValue_prefix)
  from assms(2) have tk: "take n (take (Suc n) body @ rest) = take n body"
    by (simp add: min_def)
  have "Decode s (take (Suc n) body @ rest) = unmarshal s (take n (take (Suc n) body @ rest))"
    by (simp only: Decode_def rv readResult.case)
  also have "\<dots> = unmarshal s (take n body)"
    by (simp only: tk)
  also have "\<dots> = Decode s body"
    by (simp only: Decode_def assms(1) readResult.case)
  finally show ?thesis .
qed

subsection \<open>Restart\<close>

text \<open>
  C10, as the code has it. The handler returns the decoder's error as it is and makes no
  call at all (no handler lookup, no RPC) exactly when \<^verbatim>\<open>Decode\<close> fails, and \<^verbatim>\<open>Decode\<close>
  fails when the body has no complete JSON value at its start (nothing but white space,
  the empty body included: \<^verbatim>\<open>io.EOF\<close>; the end of the body inside the value:
  \<^verbatim>\<open>io.ErrUnexpectedEOF\<close>; a byte the grammar does not allow: a syntax error) or when that
  value does not unmarshal into the struct. Every such body is invalid JSON or of the
  wrong shape, but not every invalid body is such a body: the decoder reads one value
  and never looks at what follows the byte after it, so the text behind a first value
  can be replaced by anything without changing the result, and a body whose first value
  unmarshals goes on to the handler lookup. A body is mandatory although \<^verbatim>\<open>TaskName\<close> is
  optional.
\<close>

theorem allocRestart_body_required:
  "(Decode s (Body req) = Inl e \<longrightarrow> allocRestart s allocID req = (Nil, Some (Foreign e), []))
   \<and> (Body req = [] \<longrightarrow> allocRestart s allocID req = (Nil, Some (Foreign (EOF s)), []))
   \<and> ((\<forall>c \<in> set (Body req). isSpace c) \<longrightarrow>
        allocRestart s allocID req = (Nil, Some (Foreign (EOF s)), []))
   \<and> (readValue (Body req) = ReadEOF \<longrightarrow>
        allocRestart s allocID req = (Nil, Some (Foreign (EOF s)), []))
   \<and> (readValue (Body req) = ReadUnexpectedEOF \<longrightarrow>
        allocRestart s allocID req = (Nil, Some (Foreign (ErrUnexpectedEOF s)), []))
   \<and> (readValue (Body req) = ReadSyntaxError (Some (c, context)) \<longrightarrow>
        allocRestart s allocID req = (Nil, Some (Foreign (SyntaxError s c context)), []))
   \<and> (readValue (Body req) = ReadValue n \<and> unmarshal s (take n (Body req)) = Inl e \<longrightarrow>
        allocRestart s allocID req = (Nil, Some (Foreign e), []))
   \<and> (Valid (Body req) \<longrightarrow> (\<exists>k. readValue (Body req) = ReadValue k))
   \<and> (readValue (Body req) = ReadValue n \<and> n < length (Body req) \<longrightarrow>
        Decode s (take (Suc n) (Body req) @ rest) = Decode s (Body req))
   \<and> (Decode s (Body req) = Inr taskName \<longrightarrow>
        (\<exists>reply rpcErr calls.
           allocRestart s allocID req = (Generic reply, rpcErr, EvRpcHandlerForAlloc allocID # calls)))"
proof (intro conjI impI)
  assume "Decode s (Body req) = Inl e"
  then show "allocRestart s allocID req = (Nil, Some (Foreign e), [])"
    by (simp add: allocRestart_def Let_def)
next
  assume "Body req = []"
  then show "allocRestart s allocID req = (Nil, Some (Foreign (EOF s)), [])"
    by (simp add: allocRestart_def Let_def Decode_def readValue_nothing)
next
  assume "\<forall>c \<in> set (Body req). isSpace c"
  then have "readValue (Body req) = ReadEOF" by (rule readValue_spaces)
  then show "allocRestart s allocID req = (Nil, Some (Foreign (EOF s)), [])"
    by (simp add: allocRestart_def Let_def Decode_def)
next
  assume "readValue (Body req) = ReadEOF"
  then show "allocRestart s allocID req = (Nil, Some (Foreign (EOF s)), [])"
    by (simp add: allocRestart_def Let_def Decode_def)
next
  assume "readValue (Body req) = ReadUnexpectedEOF"
  then show "allocRestart s allocID req = (Nil, Some (Foreign (ErrUnexpectedEOF s)), [])"
    by (simp add: allocRestart_def Let_def Decode_def)
next
  assume "readValue (Body req) = ReadSyntaxError (Some (c, context))"
  then show "allocRestart s allocID req = (Nil, Some (Foreign (SyntaxError s c context)), [])"
    by (simp add: allocRestart_def Let_def Decode_def)
next
  assume "readValue (Body req) = ReadValue n \<and> unmarshal s (take n (Body req)) = Inl e"
  then show "allocRestart s allocID req = (Nil, Some (Foreign e), [])"
    by (simp add: allocRestart_def Let_def Decode_def)
next
  assume "Valid (Body req)"
  then show "\<exists>k. readValue (Body req) = ReadValue k" by (rule Valid_readValue)
next
  assume "readValue (Body req) = ReadValue n \<and> n < length (Body req)"
  then show "Decode s (take (Suc n) (Body req) @ rest) = Decode s (Body req)"
    by (simp add: Decode_prefix)
next
  assume "Decode s (Body req) = Inr taskName"
  then show "\<exists>reply rpcErr calls.
      allocRestart s allocID req = (Generic reply, rpcErr, EvRpcHandlerForAlloc allocID # calls)"
    by (simp add: allocRestart_def Let_def split: prod.splits)
qed

theorem allocRestart_body_required_witness:
  "readValue (Body \<lparr>Method = ''POST'', Query = [], Body = ''{''\<rparr>) = ReadUnexpectedEOF
   \<and> allocRestart exampleAgent ''local'' \<lparr>Method = ''POST'', Query = [], Body = ''{''\<rparr>
       = (Nil, Some (Foreign ''unexpected EOF''), [])
   \<and> Body \<lparr>Method = ''POST'', Query = [], Body = []\<rparr> = []
   \<and> allocRestart exampleAgent ''local'' \<lparr>Method = ''POST'', Query = [], Body = []\<rparr>
       = (Nil, Some (Foreign ''EOF''), [])
   \<and> readValue (Body \<lparr>Method = ''POST'', Query = [], Body = ''restart''\<rparr>)
       = ReadSyntaxError (Some (CHR ''r'', ''looking for beginning of value''))
   \<and> allocRestart exampleAgent ''local'' \<lparr>Method = ''POST'', Query = [], Body = ''restart''\<rparr>
       = (Nil, Some (Foreign ''invalid character r looking for beginning of value''), [])
   \<and> readValue (Body \<lparr>Method = ''POST'', Query = [], Body = ''[]''\<rparr>) = ReadValue 2
   \<and> unmarshal exampleAgent (take 2 (Body \<lparr>Method = ''POST'', Query = [], Body = ''[]''\<rparr>))
       = Inl ''json: cannot unmarshal''
   \<and> allocRestart exampleAgent ''local'' \<lparr>Method = ''POST'', Query = [], Body = ''[]''\<rparr>
       = (Nil, Some (Foreign ''json: cannot unmarshal''), [])
   \<and> readValue (Body \<lparr>Method = ''POST'', Query = [], Body = ''{}x''\<rparr>) = ReadValue 2
   \<and> 2 < length (Body \<lparr>Method = ''POST'', Query = [], Body = ''{}x''\<rparr>)
   \<and> Decode exampleAgent (''{}x'' @ ''yz'') = Decode exampleAgent ''{}x''
   \<and> Decode exampleAgent (Body \<lparr>Method = ''POST'', Query = [], Body = ''{}x''\<rparr>) = Inr []
   \<and> (\<exists>reply rpcErr calls.
         allocRestart exampleAgent ''local'' \<lparr>Method = ''POST'', Query = [], Body = ''{}x''\<rparr>
           = (Generic reply, rpcErr, EvRpcHandlerForAlloc ''local'' # calls))"
  using allocRestart_body_required [of exampleAgent "\<lparr>Method = ''POST'', Query = [], Body = ''{''\<rparr>"
          "''unexpected EOF''" "''local''" "CHR ''r''" "[]" 0 "[]" "[]"]
        allocRestart_body_required [of exampleAgent "\<lparr>Method = ''POST'', Query = [], Body = []\<rparr>"
          "''EOF''" "''local''" "CHR ''r''" "[]" 0 "[]" "[]"]
        allocRestart_body_required [of exampleAgent "\<lparr>Method = ''POST'', Query = [], Body = ''restart''\<rparr>"
          "''EOF''" "''local''" "CHR ''r''" "''looking for beginning of value''" 0 "[]" "[]"]
        allocRestart_body_required [of exampleAgent "\<lparr>Method = ''POST'', Query = [], Body = ''[]''\<rparr>"
          "''json: cannot unmarshal''" "''local''" "CHR ''r''" "[]" 2 "[]" "[]"]
        allocRestart_body_required [of exampleAgent "\<lparr>Method = ''POST'', Query = [], Body = ''{}x''\<rparr>"
          "''EOF''" "''local''" "CHR ''r''" "[]" 2 "''yz''" "[]"]
  by (simp add: readValue_open_brace readValue_word readValue_empty_array readValue_trailing_text
        Decode_def exampleAgent_def isSpace_def)

text \<open>
  C10 as stated fails: the body \<open>{}x\<close> is not valid JSON, and the restart is made. The
  decoder takes the object \<open>{}\<close>, which sets no task name, and never reads the \<open>x\<close>.
\<close>

theorem allocRestart_trailing_text_counterexample:
  "\<not> Valid ''{}x''
   \<and> allocRestart exampleAgent ''local'' \<lparr>Method = ''POST'', Query = [], Body = ''{}x''\<rparr>
       = (Generic 1, None,
          [EvRpcHandlerForAlloc ''local'',
           EvRPC LocalClientRPC ''Allocations.Restart'' (AllocRestartRequest ''local'' [] [])])"
proof -
  have "\<not> Valid ''{}x''" by code_simp
  then show ?thesis
    by (simp add: allocRestart_def Decode_def readValue_trailing_text makeRPC_def exampleAgent_def
          isSpace_def QueryGet_def Let_def)
qed

subsection \<open>Snapshot\<close>

text \<open>
  C4. A snapshot request whose migrate token does not validate returns
  \<^verbatim>\<open>structs.ErrPermissionDenied\<close>, and the validation is the only collaborator call made:
  no handler lookup, no allocation directory, no RPC. On every request the validation is
  the first call.
\<close>

theorem allocSnapshot_invalid_token:
  "(\<not> ValidateMigrateToken s allocID (parseToken s req) \<longrightarrow>
      allocSnapshot s allocID req =
        (Nil, Some (Foreign (ErrPermissionDenied s)), [EvValidateMigrateToken allocID (parseToken s req)]))
   \<and> hd (snd (snd (allocSnapshot s allocID req))) = EvValidateMigrateToken allocID (parseToken s req)"
  by (simp add: allocSnapshot_def Let_def split: sum.splits option.splits)

theorem allocSnapshot_invalid_token_witness:
  "\<not> ValidateMigrateToken exampleAgent ''local'' (parseToken exampleAgent \<lparr>Method = ''GET'', Query = [(''token'', ''guess'')], Body = []\<rparr>)
   \<and> allocSnapshot exampleAgent ''local'' \<lparr>Method = ''GET'', Query = [(''token'', ''guess'')], Body = []\<rparr>
      = (Nil, Some (Foreign ''Permission denied''), [EvValidateMigrateToken ''local'' ''guess''])"
  using allocSnapshot_invalid_token [of exampleAgent "''local''" "\<lparr>Method = ''GET'', Query = [(''token'', ''guess'')], Body = []\<rparr>"]
  by (simp add: exampleAgent_def QueryGet_def)

subsection \<open>The allocation named in the path\<close>

lemma makeRPC_calls:
  "makeRPC rpc reply0 use op a = (reply, rpcErr, calls) \<Longrightarrow> EvRPC t m b \<in> set calls \<Longrightarrow> b = a"
  by (auto simp add: makeRPC_def split: prod.splits if_splits)

text \<open>
  The RPC step ends with a foreign error exactly when one of the three transports was
  chosen and the call made on it returned that error; the 400 of the last branch is
  never foreign.
\<close>

lemma makeRPC_foreign:
  "makeRPC rpc reply0 use op a = (reply, Some (Foreign e), calls) \<longleftrightarrow>
     (\<exists>t m. rpc t m a = (reply, Some e) \<and> calls = [EvRPC t m a] \<and>
        (case use of (useLocalClient, useClientRPC, useServerRPC) \<Rightarrow>
           if useLocalClient then t = LocalClientRPC \<and> m = ''Allocations.'' @ op
           else if useClientRPC then t = ClientRPC \<and> m = ''ClientAllocations.'' @ op
           else useServerRPC \<and> t = ServerRPC \<and> m = ''ClientAllocations.'' @ op))"
  by (cases use) (auto simp add: makeRPC_def split: prod.splits)

lemma makeRPC_no_handler:
  "makeRPC rpc reply0 (False, False, False) op a =
     (reply0, Some (CodedError 400 ''No local Node and node_id not provided''), [])"
  by (simp add: makeRPC_def)

text \<open>
  C2. Whatever RPC a restart or a signal request issues, its request struct carries the
  allocation id the handler was given from the path. The restart body is decoded into a
  struct that has a \<^verbatim>\<open>TaskName\<close> and nothing else; the signal body is decoded into the
  request itself, and the id it may have set is overwritten afterwards.
\<close>

theorem path_allocID_wins:
  "(EvRPC t m a \<in> set (snd (snd (allocRestart s allocID req))) \<longrightarrow>
      (\<exists>taskName qo. a = AllocRestartRequest allocID taskName qo))
   \<and> (EvRPC t m a \<in> set (snd (snd (allocSignal s allocID req))) \<longrightarrow>
      (\<exists>task signal qo. a = AllocSignalRequest allocID task signal qo))"
proof (intro conjI impI)
  assume "EvRPC t m a \<in> set (snd (snd (allocRestart s allocID req)))"
  then show "\<exists>taskName qo. a = AllocRestartRequest allocID taskName qo"
    by (auto simp add: allocRestart_def Let_def split: sum.splits prod.splits if_splits
             dest: makeRPC_calls)
next
  assume "EvRPC t m a \<in> set (snd (snd (allocSignal s allocID req)))"
  then show "\<exists>task signal qo. a = AllocSignalRequest allocID task signal qo"
    by (auto simp add: allocSignal_def Let_def split: sum.splits prod.splits if_splits
             dest: makeRPC_calls)
qed

theorem path_allocID_wins_witness:
  "decodeBody exampleAgent \<lparr>Method = ''POST'', Query = [], Body = ''{}''\<rparr>
     = Inr (''elsewhere'', ''web'', ''SIGHUP'', [])
   \<and> EvRPC LocalClientRPC ''Allocations.Signal'' (AllocSignalRequest ''local'' ''web'' ''SIGHUP'' [])
       \<in> set (snd (snd (allocSignal exampleAgent ''local'' \<lparr>Method = ''POST'', Query = [], Body = ''{}''\<rparr>)))
   \<and> EvRPC LocalClientRPC ''Allocations.Restart'' (AllocRestartRequest ''local'' [] [])
       \<in> set (snd (snd (allocRestart exampleAgent ''local'' \<lparr>Method = ''POST'', Query = [], Body = ''{}''\<rparr>)))
   \<and> (\<exists>task signal qo. AllocSignalRequest ''local'' ''web'' ''SIGHUP'' ([]::string) = AllocSignalRequest ''local'' task signal qo)
   \<and> (\<exists>taskName qo. AllocRestartRequest ''local'' [] ([]::string) = AllocRestartRequest ''local'' taskName qo)"
  using path_allocID_wins [of LocalClientRPC "''Allocations.Signal''"
          "AllocSignalRequest ''local'' ''web'' ''SIGHUP'' []" exampleAgent "''local''"
          "\<lparr>Method = ''POST'', Query = [], Body = ''{}''\<rparr>"]
        path_allocID_wins [of LocalClientRPC "''Allocations.Restart''"
          "AllocRestartRequest ''local'' [] []" exampleAgent "''local''"
          "\<lparr>Method = ''POST'', Query = [], Body = ''{}''\<rparr>"]
  by (simp add: allocSignal_def allocRestart_def Decode_empty_object makeRPC_def exampleAgent_def QueryGet_def
        isSpace_def Let_def)

subsection \<open>No handler for the target\<close>

text \<open>
  C3. When the handler lookup gives no local client, no client RPC and no server RPC,
  restart, signal, garbage collection of one allocation, garbage collection of a node
  and stats all return the coded error 400 and issue no RPC: the lookup is the only call.
  Restart and signal get to the lookup only once the body has decoded (and, for signal,
  the method is \<^verbatim>\<open>POST\<close> or \<^verbatim>\<open>PUT\<close>). The handlers pass that 400 through the two
  recognisers of package \<^verbatim>\<open>structs\<close> like any other error, so the statement needs that
  they do not take it for a missing connection or an unknown allocation.
\<close>

theorem no_handler_bad_request:
  assumes "\<not> IsErrNoNodeConn s (CodedError 400 ''No local Node and node_id not provided'')"
    and "\<not> IsErrUnknownAllocation s (CodedError 400 ''No local Node and node_id not provided'')"
    and "rpcHandlerForAlloc s allocID = (False, False, False)"
    and "rpcHandlerForNode s (QueryGet (Query req) ''node_id'') = (False, False, False)"
  shows "(Decode s (Body req) = Inr taskName \<longrightarrow>
            allocRestart s allocID req =
              (Generic (GenericResponse0 s),
               Some (CodedError 400 ''No local Node and node_id not provided''),
               [EvRpcHandlerForAlloc allocID]))
       \<and> ((Method req = ''POST'' \<or> Method req = ''PUT'') \<and> decodeBody s req = Inr decoded \<longrightarrow>
            allocSignal s allocID req =
              (Generic (GenericResponse0 s),
               Some (CodedError 400 ''No local Node and node_id not provided''),
               [EvRpcHandlerForAlloc allocID]))
       \<and> allocGC s allocID req =
            (Nil, Some (CodedError 400 ''No local Node and node_id not provided''),
             [EvRpcHandlerForAlloc allocID])
       \<and> ClientGCRequest s req =
            (Nil, Some (CodedError 400 ''No local Node and node_id not provided''),
             [EvRpcHandlerForNode (QueryGet (Query req) ''node_id'')])
       \<and> allocStats s allocID req =
            (Stats None, Some (CodedError 400 ''No local Node and node_id not provided''),
             [EvRpcHandlerForAlloc allocID])"
proof (intro conjI impI)
  assume "Decode s (Body req) = Inr taskName"
  with assms show "allocRestart s allocID req =
              (Generic (GenericResponse0 s),
               Some (CodedError 400 ''No local Node and node_id not provided''),
               [EvRpcHandlerForAlloc allocID])"
    by (simp add: allocRestart_def Let_def makeRPC_no_handler)
next
  assume "(Method req = ''POST'' \<or> Method req = ''PUT'') \<and> decodeBody s req = Inr decoded"
  with assms show "allocSignal s allocID req =
              (Generic (GenericResponse0 s),
               Some (CodedError 400 ''No local Node and node_id not provided''),
               [EvRpcHandlerForAlloc allocID])"
    by (cases decoded) (auto simp add: allocSignal_def Let_def makeRPC_no_handler)
next
  from assms show "allocGC s allocID req =
            (Nil, Some (CodedError 400 ''No local Node and node_id not provided''),
             [EvRpcHandlerForAlloc allocID])"
    by (simp add: allocGC_def Let_def makeRPC_no_handler)
next
  from assms show "ClientGCRequest s req =
            (Nil, Some (CodedError 400 ''No local Node and node_id not provided''),
             [EvRpcHandlerForNode (QueryGet (Query req) ''node_id'')])"
    by (simp add: ClientGCRequest_def Let_def makeRPC_no_handler)
next
  from assms show "allocStats s allocID req =
            (Stats None, Some (CodedError 400 ''No local Node and node_id not provided''),
             [EvRpcHandlerForAlloc allocID])"
    by (simp add: allocStats_def Let_def makeRPC_no_handler)
qed

theorem no_handler_bad_request_witness:
  "\<not> IsErrNoNodeConn exampleAgent (CodedError 400 ''No local Node and node_id not provided'')
   \<and> \<not> IsErrUnknownAllocation exampleAgent (CodedError 400 ''No local Node and node_id not provided'')
   \<and> rpcHandlerForAlloc exampleAgent ''unknown-id'' = (False, False, False)
   \<and> rpcHandlerForNode exampleAgent
        (QueryGet (Query \<lparr>Method = ''POST'', Query = [(''node_id'', ''node9'')], Body = ''{}''\<rparr>) ''node_id'')
       = (False, False, False)
   \<and> Decode exampleAgent (Body \<lparr>Method = ''POST'', Query = [(''node_id'', ''node9'')], Body = ''{}''\<rparr>) = Inr []
   \<and> decodeBody exampleAgent \<lparr>Method = ''POST'', Query = [(''node_id'', ''node9'')], Body = ''{}''\<rparr>
       = Inr (''elsewhere'', ''web'', ''SIGHUP'', [])
   \<and> allocRestart exampleAgent ''unknown-id'' \<lparr>Method = ''POST'', Query = [(''node_id'', ''node9'')], Body = ''{}''\<rparr>
       = (Generic 0, Some (CodedError 400 ''No local Node and node_id not provided''),
          [EvRpcHandlerForAlloc ''unknown-id''])
   \<and> allocSignal exampleAgent ''unknown-id'' \<lparr>Method = ''POST'', Query = [(''node_id'', ''node9'')], Body = ''{}''\<rparr>
       = (Generic 0, Some (CodedError 400 ''No local Node and node_id not provided''),
          [EvRpcHandlerForAlloc ''unknown-id''])
   \<and> allocGC exampleAgent ''unknown-id'' \<lparr>Method = ''POST'', Query = [(''node_id'', ''node9'')], Body = ''{}''\<rparr>
       = (Nil, Some (CodedError 400 ''No local Node and node_id not provided''),
          [EvRpcHandlerForAlloc ''unknown-id''])
   \<and> allocStats exampleAgent ''unknown-id'' \<lparr>Method = ''POST'', Query = [(''node_id'', ''node9'')], Body = ''{}''\<rparr>
       = (Stats None, Some (CodedError 400 ''No local Node and node_id not provided''),
          [EvRpcHandlerForAlloc ''unknown-id''])
   \<and> ClientGCRequest exampleAgent \<lparr>Method = ''POST'', Query = [(''node_id'', ''node9'')], Body = ''{}''\<rparr>
       = (Nil, Some (CodedError 400 ''No local Node and node_id not provided''),
          [EvRpcHandlerForNode ''node9''])"
  using no_handler_bad_request [of exampleAgent "''unknown-id''"
          "\<lparr>Method = ''POST'', Query = [(''node_id'', ''node9'')], Body = ''{}''\<rparr>"
          "[]" "(''elsewhere'', ''web'', ''SIGHUP'', [])"]
  by (simp add: exampleAgent_def QueryGet_def Decode_empty_object isSpace_def)

subsection \<open>Errors of the backend\<close>

text \<open>
  C1, as the code has it. When the RPC made by restart, signal, garbage collection of one
  allocation or stats returns an error that \<^verbatim>\<open>IsErrNoNodeConn\<close> or
  \<^verbatim>\<open>IsErrUnknownAllocation\<close> recognises, the handler returns the coded error 404 with the
  text of that error. \<^verbatim>\<open>ClientGCRequest\<close>, which works on a node, does so for
  \<^verbatim>\<open>IsErrNoNodeConn\<close> only: an error that only \<^verbatim>\<open>IsErrUnknownAllocation\<close> recognises is
  returned as it is.
\<close>

theorem rpc_error_not_found:
  assumes "IsErrNoNodeConn s (Foreign e) \<or> IsErrUnknownAllocation s (Foreign e)"
  shows "(Decode s (Body req) = Inr taskName \<and>
          makeRPC (RPC_Generic s) (GenericResponse0 s) (rpcHandlerForAlloc s allocID) ''Restart''
            (AllocRestartRequest allocID taskName (snd (parse s req (QueryOptions0 s))))
            = (reply, Some (Foreign e), calls) \<longrightarrow>
          allocRestart s allocID req =
            (Generic reply, Some (CodedError 404 (errorText s e)), EvRpcHandlerForAlloc allocID # calls))
       \<and> ((Method req = ''POST'' \<or> Method req = ''PUT'') \<and>
          decodeBody s req = Inr (bodyAllocID, task, signal, bodyOptions) \<and>
          makeRPC (RPC_Generic s) (GenericResponse0 s) (rpcHandlerForAlloc s allocID) ''Signal''
            (AllocSignalRequest allocID task signal (snd (parse s req bodyOptions)))
            = (reply, Some (Foreign e), calls) \<longrightarrow>
          allocSignal s allocID req =
            (Generic reply, Some (CodedError 404 (errorText s e)), EvRpcHandlerForAlloc allocID # calls))
       \<and> (makeRPC (RPC_Generic s) (GenericResponse0 s) (rpcHandlerForAlloc s allocID) ''GarbageCollect''
            (AllocSpecificRequest allocID (snd (parse s req (QueryOptions0 s))))
            = (reply, Some (Foreign e), calls) \<longrightarrow>
          allocGC s allocID req =
            (Nil, Some (CodedError 404 (errorText s e)), EvRpcHandlerForAlloc allocID # calls))
       \<and> (makeRPC (RPC_Stats s) None (rpcHandlerForAlloc s allocID) ''Stats''
            (AllocStatsRequest allocID (QueryGet (Query req) ''task'') (snd (parse s req (QueryOptions0 s))))
            = (stats, Some (Foreign e), calls) \<longrightarrow>
          allocStats s allocID req =
            (Stats stats, Some (CodedError 404 (errorText s e)), EvRpcHandlerForAlloc allocID # calls))
       \<and> (makeRPC (RPC_Generic s) (GenericResponse0 s)
            (rpcHandlerForNode s (QueryGet (Query req) ''node_id'')) ''GarbageCollectAll''
            (NodeSpecificRequest (QueryGet (Query req) ''node_id'') (snd (parse s req (QueryOptions0 s))))
            = (reply, Some (Foreign e), calls) \<longrightarrow>
          ClientGCRequest s req =
            (Nil,
             Some (if IsErrNoNodeConn s (Foreign e) then CodedError 404 (errorText s e) else Foreign e),
             EvRpcHandlerForNode (QueryGet (Query req) ''node_id'') # calls))"
  using assms
  by (auto simp add: allocRestart_def allocSignal_def allocGC_def allocStats_def ClientGCRequest_def Let_def)

theorem rpc_error_not_found_witness:
  "(IsErrNoNodeConn exampleAgent (Foreign ''No path to node'')
      \<or> IsErrUnknownAllocation exampleAgent (Foreign ''No path to node''))
   \<and> Decode exampleAgent (Body \<lparr>Method = ''PUT'', Query = [(''node_id'', ''node1'')], Body = ''{}''\<rparr>) = Inr []
   \<and> decodeBody exampleAgent \<lparr>Method = ''PUT'', Query = [(''node_id'', ''node1'')], Body = ''{}''\<rparr>
       = Inr (''elsewhere'', ''web'', ''SIGHUP'', [])
   \<and> makeRPC (RPC_Generic exampleAgent) (GenericResponse0 exampleAgent)
        (rpcHandlerForAlloc exampleAgent ''remote'') ''Restart'' (AllocRestartRequest ''remote'' [] [])
       = (0, Some (Foreign ''No path to node''),
          [EvRPC ClientRPC ''ClientAllocations.Restart'' (AllocRestartRequest ''remote'' [] [])])
   \<and> allocRestart exampleAgent ''remote'' \<lparr>Method = ''PUT'', Query = [(''node_id'', ''node1'')], Body = ''{}''\<rparr>
       = (Generic 0, Some (CodedError 404 ''No path to node''),
          [EvRpcHandlerForAlloc ''remote'',
           EvRPC ClientRPC ''ClientAllocations.Restart'' (AllocRestartRequest ''remote'' [] [])])
   \<and> allocSignal exampleAgent ''remote'' \<lparr>Method = ''PUT'', Query = [(''node_id'', ''node1'')], Body = ''{}''\<rparr>
       = (Generic 0, Some (CodedError 404 ''No path to node''),
          [EvRpcHandlerForAlloc ''remote'',
           EvRPC ClientRPC ''ClientAllocations.Signal'' (AllocSignalRequest ''remote'' ''web'' ''SIGHUP'' [])])
   \<and> allocGC exampleAgent ''remote'' \<lparr>Method = ''PUT'', Query = [(''node_id'', ''node1'')], Body = ''{}''\<rparr>
       = (Nil, Some (CodedError 404 ''No path to node''),
          [EvRpcHandlerForAlloc ''remote'',
           EvRPC ClientRPC ''ClientAllocations.GarbageCollect'' (AllocSpecificRequest ''remote'' [])])
   \<and> ClientGCRequest exampleAgent \<lparr>Method = ''PUT'', Query = [(''node_id'', ''node1'')], Body = ''{}''\<rparr>
       = (Nil, Some (CodedError 404 ''No path to node''),
          [EvRpcHandlerForNode ''node1'',
           EvRPC ClientRPC ''ClientAllocations.GarbageCollectAll'' (NodeSpecificRequest ''node1'' [])])"
  using rpc_error_not_found [of exampleAgent "''No path to node''"
          "\<lparr>Method = ''PUT'', Query = [(''node_id'', ''node1'')], Body = ''{}''\<rparr>" "[]" "''remote''" 0
          "[EvRPC ClientRPC ''ClientAllocations.Restart'' (AllocRestartRequest ''remote'' [] [])]"
          "''elsewhere''" "''web''" "''SIGHUP''" "[]" None]
  by (simp add: exampleAgent_def QueryGet_def Decode_empty_object isSpace_def makeRPC_def allocSignal_def allocGC_def
        ClientGCRequest_def Let_def)

text \<open>
  C1 as stated fails for \<^verbatim>\<open>ClientGCRequest\<close>: the server answers the node-wide garbage
  collection with an error that \<^verbatim>\<open>IsErrUnknownAllocation\<close> recognises, and the handler
  returns it unchanged, not as a coded 404.
\<close>

theorem gc_all_unknown_allocation_counterexample:
  "IsErrUnknownAllocation exampleAgent (Foreign ''Unknown allocation'')
   \<and> RPC_Generic exampleAgent ServerRPC ''ClientAllocations.GarbageCollectAll''
        (NodeSpecificRequest ''node2'' []) = (0, Some ''Unknown allocation'')
   \<and> ClientGCRequest exampleAgent \<lparr>Method = ''PUT'', Query = [(''node_id'', ''node2'')], Body = []\<rparr>
       = (Nil, Some (Foreign ''Unknown allocation''),
          [EvRpcHandlerForNode ''node2'',
           EvRPC ServerRPC ''ClientAllocations.GarbageCollectAll'' (NodeSpecificRequest ''node2'' [])])
   \<and> fst (snd (ClientGCRequest exampleAgent \<lparr>Method = ''PUT'', Query = [(''node_id'', ''node2'')], Body = []\<rparr>))
       \<noteq> Some (CodedError 404 ''Unknown allocation'')"
  by (simp add: exampleAgent_def QueryGet_def makeRPC_def ClientGCRequest_def Let_def)

subsection \<open>Methods\<close>

text \<open>
  C8. \<^verbatim>\<open>allocRestart\<close> never looks at the method: a \<^verbatim>\<open>GET\<close> with a JSON body restarts
  the allocation, where \<^verbatim>\<open>allocSignal\<close> answers the same request with the coded error
  405.
\<close>

theorem allocRestart_get_not_rejected:
  "allocRestart exampleAgent ''local'' \<lparr>Method = ''GET'', Query = [], Body = ''{}''\<rparr>
     = (Generic 1, None,
        [EvRpcHandlerForAlloc ''local'',
         EvRPC LocalClientRPC ''Allocations.Restart'' (AllocRestartRequest ''local'' [] [])])
   \<and> allocSignal exampleAgent ''local'' \<lparr>Method = ''GET'', Query = [], Body = ''{}''\<rparr>
     = (Nil, Some (CodedError 405 ''Invalid method''), [])"
  by (simp add: exampleAgent_def QueryGet_def allocRestart_def allocSignal_def Decode_empty_object isSpace_def
        makeRPC_def Let_def)

subsection \<open>Snapshot errors\<close>

text \<open>
  C5. With a valid token and no allocation directory, \<^verbatim>\<open>allocSnapshot\<close> returns the
  plain error \<^verbatim>\<open>fmt.Errorf(allocNotFoundErr)\<close>: it has the text "allocation not found"
  and no status code, unlike every other not-found answer of the file, which is a
  \<^verbatim>\<open>CodedError(404, ...)\<close>.
\<close>

theorem allocSnapshot_not_found_uncoded:
  "ValidateMigrateToken exampleAgent ''remote'' ''secret''
   \<and> GetAllocFS exampleAgent ''remote'' = Inl ''no such directory''
   \<and> allocSnapshot exampleAgent ''remote'' \<lparr>Method = ''GET'', Query = [(''token'', ''secret'')], Body = []\<rparr>
       = (Nil, Some (Errorf ''allocation not found''),
          [EvValidateMigrateToken ''remote'' ''secret'', EvGetAllocFS ''remote''])"
  by (simp add: exampleAgent_def QueryGet_def allocSnapshot_def allocNotFoundErr_def Let_def)

subsection \<open>Get\<close>

text \<open>
  C6. A get that finds an allocation whose job has a non-empty payload, which decodes,
  returns a pointer to a new allocation whose job is a new job holding the decoded
  bytes. The store it leaves is the old store with those two objects appended: the
  allocation of the RPC reply and its job, payload included, are what they were.
\<close>

theorem allocGet_decodes_into_copy:
  assumes "Method req = ''GET''"
    and "parse s req (QueryOptions0 s) = (False, qo)"
    and "RPC_Single s AgentRPC ''Alloc.GetAlloc'' (AllocSpecificRequest allocID qo) = (Some p, None)"
    and "p < length (allocs h)"
    and "Job (allocs h ! p) = Some j"
    and "j < length (jobs h)"
    and "Payload (jobs h ! j) \<noteq> []"
    and "snappyDecode s (Payload (jobs h ! j)) = Inr decoded"
  shows "\<exists>h'. allocGet s h allocID req =
           (AllocPtr (length (allocs h)), None, h',
            [EvRPC AgentRPC ''Alloc.GetAlloc'' (AllocSpecificRequest allocID qo), EvSetMeta,
             EvSnappyDecode (Payload (jobs h ! j)), EvCopy p])
         \<and> h' = \<lparr>allocs = allocs h @
                     [(allocs h ! p)\<lparr>Job := Some (length (jobs h)),
                                    TaskStates := setDisplayMsg s (TaskStates (allocs h ! p))\<rparr>],
                  jobs = jobs h @ [(jobs h ! j)\<lparr>Payload := decoded\<rparr>]\<rparr>
         \<and> length (allocs h) \<noteq> p
         \<and> Job (allocs h' ! length (allocs h)) = Some (length (jobs h))
         \<and> length (jobs h) \<noteq> j
         \<and> Payload (jobs h' ! length (jobs h)) = decoded
         \<and> take (length (allocs h)) (allocs h') = allocs h
         \<and> take (length (jobs h)) (jobs h') = jobs h
         \<and> allocs h' ! p = allocs h ! p
         \<and> jobs h' ! j = jobs h ! j"
  using assms
  by (simp add: allocGet_def Let_def Copy_def setJobPayload_def SetEventDisplayMessages_def nth_append)

theorem allocGet_decodes_into_copy_witness:
  "Method \<lparr>Method = ''GET'', Query = [], Body = []\<rparr> = ''GET''
   \<and> parse exampleAgent \<lparr>Method = ''GET'', Query = [], Body = []\<rparr> (QueryOptions0 exampleAgent) = (False, [])
   \<and> RPC_Single exampleAgent AgentRPC ''Alloc.GetAlloc'' (AllocSpecificRequest ''local'' []) = (Some 0, None)
   \<and> 0 < length (allocs (exampleHeap [7, 9]))
   \<and> Job (allocs (exampleHeap [7, 9]) ! 0) = Some 0
   \<and> 0 < length (jobs (exampleHeap [7, 9]))
   \<and> Payload (jobs (exampleHeap [7, 9]) ! 0) \<noteq> []
   \<and> snappyDecode exampleAgent (Payload (jobs (exampleHeap [7, 9]) ! 0)) = Inr [7, 9, 7, 9]
   \<and> allocGet exampleAgent (exampleHeap [7, 9]) ''local'' \<lparr>Method = ''GET'', Query = [], Body = []\<rparr> =
       (AllocPtr 1, None,
        \<lparr>allocs = [\<lparr>ID = ''local'', Job = Some 0, TaskStates = [[], ''Started'']\<rparr>,
                   \<lparr>ID = ''local'', Job = Some 1, TaskStates = [''Task event'', ''Started'']\<rparr>],
         jobs = [\<lparr>Payload = [7, 9]\<rparr>, \<lparr>Payload = [7, 9, 7, 9]\<rparr>]\<rparr>,
        [EvRPC AgentRPC ''Alloc.GetAlloc'' (AllocSpecificRequest ''local'' []), EvSetMeta,
         EvSnappyDecode [7, 9], EvCopy 0])"
  using allocGet_decodes_into_copy [of "\<lparr>Method = ''GET'', Query = [], Body = []\<rparr>" exampleAgent "[]"
          "''local''" 0 "exampleHeap [7, 9]" 0 "[7, 9, 7, 9]"]
  by (simp add: exampleAgent_def exampleHeap_def QueryGet_def)

text \<open>
  C9. A get that finds an allocation without a job, or whose job has an empty payload,
  returns the very pointer of the RPC reply: nothing is decoded and no copy is made (the
  calls are the RPC and \<^verbatim>\<open>setMeta\<close>, the store has the objects it had), and the jobs, the
  allocation's \<^verbatim>\<open>ID\<close> and \<^verbatim>\<open>Job\<close> and every other allocation are what they were. What
  the handler does to the allocation is what it does to every result:
  \<^verbatim>\<open>SetEventDisplayMessages\<close> runs on it.
\<close>

theorem allocGet_empty_payload_in_place:
  assumes "Method req = ''GET''"
    and "parse s req (QueryOptions0 s) = (False, qo)"
    and "RPC_Single s AgentRPC ''Alloc.GetAlloc'' (AllocSpecificRequest allocID qo) = (Some p, None)"
    and "p < length (allocs h)"
    and "Job (allocs h ! p) = None \<or> (\<exists>j. Job (allocs h ! p) = Some j \<and> Payload (jobs h ! j) = [])"
  shows "\<exists>h'. allocGet s h allocID req =
           (AllocPtr p, None, h',
            [EvRPC AgentRPC ''Alloc.GetAlloc'' (AllocSpecificRequest allocID qo), EvSetMeta])
         \<and> h' = h\<lparr>allocs := (allocs h)
                     [p := (allocs h ! p)\<lparr>TaskStates := setDisplayMsg s (TaskStates (allocs h ! p))\<rparr>]\<rparr>
         \<and> length (allocs h') = length (allocs h)
         \<and> jobs h' = jobs h
         \<and> ID (allocs h' ! p) = ID (allocs h ! p)
         \<and> Job (allocs h' ! p) = Job (allocs h ! p)
         \<and> TaskStates (allocs h' ! p) = setDisplayMsg s (TaskStates (allocs h ! p))
         \<and> (\<forall>i. i \<noteq> p \<longrightarrow> allocs h' ! i = allocs h ! i)"
  using assms
  by (auto simp add: allocGet_def Let_def SetEventDisplayMessages_def)

theorem allocGet_empty_payload_in_place_witness:
  "Method \<lparr>Method = ''GET'', Query = [], Body = []\<rparr> = ''GET''
   \<and> parse exampleAgent \<lparr>Method = ''GET'', Query = [], Body = []\<rparr> (QueryOptions0 exampleAgent) = (False, [])
   \<and> RPC_Single exampleAgent AgentRPC ''Alloc.GetAlloc'' (AllocSpecificRequest ''local'' []) = (Some 0, None)
   \<and> 0 < length (allocs (exampleHeap []))
   \<and> Job (allocs (exampleHeap []) ! 0) = Some 0
   \<and> Payload (jobs (exampleHeap []) ! 0) = []
   \<and> allocGet exampleAgent (exampleHeap []) ''local'' \<lparr>Method = ''GET'', Query = [], Body = []\<rparr> =
       (AllocPtr 0, None,
        \<lparr>allocs = [\<lparr>ID = ''local'', Job = Some 0, TaskStates = [''Task event'', ''Started'']\<rparr>],
         jobs = [\<lparr>Payload = []\<rparr>]\<rparr>,
        [EvRPC AgentRPC ''Alloc.GetAlloc'' (AllocSpecificRequest ''local'' []), EvSetMeta])"
  using allocGet_empty_payload_in_place [of "\<lparr>Method = ''GET'', Query = [], Body = []\<rparr>" exampleAgent "[]"
          "''local''" 0 "exampleHeap []"]
  by (simp add: exampleAgent_def exampleHeap_def QueryGet_def)

end
